theory Spec2Isabelle
  imports Complex_Main "HOL-Library.Word"
begin

section \<open>Data model of PROYECTO\_FINAL.ino\<close>

text \<open>
  The sketch keeps its whole state in global variables. They become the fields of one
  record, under the names of the source. \<open>unsigned long\<close> is 32 bits wide on the Arduino
  targets, so every tick value is a \<open>32 word\<close>: subtraction and addition wrap, and the
  comparisons are unsigned. \<open>float\<close> values are modelled as \<open>real\<close>: rounding is not
  modelled, and \<open>NaN\<close> only appears as the \<open>None\<close> of a sensor reading, which the loop
  replaces before it computes anything. The \<open>int\<close> variables hold angles up to 180, a
  counter that is reset when it reaches 3 and a user count of at most 2, so they are
  modelled without a width.
\<close>

type_synonym ulong = "32 word"

datatype Estado = MENU | LOGIN | CONFORT

datatype EstadoPMV = PMV_MUY_BAJO | PMV_BAJO | PMV_CONFORT | PMV_CALOR | PMV_MUY_CALOR

record Usuario =
  nombre :: string
  tag :: string
  clave :: string

text \<open>
  The last four fields are the hardware the sketch drives and reads: \<open>reloj\<close> is the value
  \<open>millis()\<close> returns, \<open>relay\<close> the level written to \<open>RELAY_PIN\<close>, \<open>color\<close> the last
  \<open>setColor\<close> and \<open>servo\<close> the last angle given to \<open>servo.write\<close>. The display, the
  serial port and the buzzer are not modelled. \<open>usuarioActivo\<close> is the index of the
  array cell the pointer of the source refers to, \<open>None\<close> for \<open>nullptr\<close>.
\<close>

record Sistema =
  usuarios :: "Usuario list"
  totalUsuarios :: nat
  usuarioActivo :: "nat option"
  pmv :: real
  intentosFallidos :: int
  alarmActive :: bool
  alarmSilenced :: bool
  alarmSilenceUntil :: ulong
  lastAlarmToggle :: ulong
  alarmToggleState :: bool
  pmvBajoActive :: bool
  lastPmvBajoToggle :: ulong
  pmvBajoToggleState :: bool
  sistemaBloqueado :: bool
  tiempoBloqueo :: ulong
  servoAnguloActual :: int
  servoAnguloDeseado :: int
  ultimoCambioServo :: ulong
  estado :: Estado
  estadoPMVActual :: EstadoPMV
  estadoPMVAnterior :: EstadoPMV
  reloj :: ulong
  relay :: bool
  color :: "bool \<times> bool \<times> bool"
  servo :: int

subsection \<open>Constants\<close>

definition PMV_ALARM_THRESHOLD :: real where
  "PMV_ALARM_THRESHOLD = 0.7"

definition PMV_BAJO_THRESHOLD :: real where
  "PMV_BAJO_THRESHOLD = - 0.7"

definition alarmInterval :: ulong where
  "alarmInterval = 500"

definition pmvBajoOnTime :: ulong where
  "pmvBajoOnTime = 100"

definition pmvBajoOffTime :: ulong where
  "pmvBajoOffTime = 400"

definition DURACION_BLOQUEO :: ulong where
  "DURACION_BLOQUEO = 15000"

definition SERVO_DELAY :: ulong where
  "SERVO_DELAY = 3000"

subsection \<open>Clock and outputs\<close>

text \<open>
  Time passes where the sketch waits: \<open>delay n\<close> advances the counter by \<open>n\<close>, with the
  wrap-around of the 32-bit counter. Between two iterations of \<open>loop\<close> the counter may
  have any value: the theorems below quantify over the state an iteration starts from.
\<close>

definition millis :: "Sistema \<Rightarrow> ulong" where
  "millis s = reloj s"

definition delay :: "ulong \<Rightarrow> Sistema \<Rightarrow> Sistema" where
  "delay n s = s\<lparr>reloj := reloj s + n\<rparr>"

definition setColor :: "bool \<Rightarrow> bool \<Rightarrow> bool \<Rightarrow> Sistema \<Rightarrow> Sistema" where
  "setColor r g b s = s\<lparr>color := (r, g, b)\<rparr>"

text \<open>\<open>beep n\<close>: \<open>n\<close> tones, each followed by \<open>delay(250)\<close>.\<close>

fun beep :: "nat \<Rightarrow> Sistema \<Rightarrow> Sistema" where
  "beep 0 s = s"
| "beep (Suc n) s = beep n (delay 250 s)"

section \<open>Comfort index\<close>

text \<open>The macro \<open>constrain(amt, low, high)\<close> of the Arduino core.\<close>

definition constrain :: "real \<Rightarrow> real \<Rightarrow> real \<Rightarrow> real" where
  "constrain amt low high = (if amt < low then low else if amt > high then high else amt)"

definition leerTempAnalogica :: "int \<Rightarrow> real" where
  "leerTempAnalogica valor = (let voltaje = real_of_int valor * (5 / 1023) in voltaje * 10)"

text \<open>
  The local variables \<open>tProm\<close>, \<open>factorHumedad\<close> and \<open>factorLuz\<close> of \<open>calcularPMV\<close>,
  as functions of the arguments they are computed from.
\<close>

definition tProm :: "real \<Rightarrow> real \<Rightarrow> real" where
  "tProm tDHT tAnalog = (tDHT + tAnalog) / 2"

definition factorHumedad :: "real \<Rightarrow> real" where
  "factorHumedad h =
     (if h < 40 then (40 - h) / 40 * (- 0.2)
      else if h > 60 then (h - 60) / 40 * 0.3
      else 0)"

definition factorLuz :: "int \<Rightarrow> real" where
  "factorLuz luz = constrain ((real_of_int luz - 300) / 700 * 0.15) (- 0.15) 0.15"

definition calcularPMV :: "real \<Rightarrow> real \<Rightarrow> real \<Rightarrow> int \<Rightarrow> real" where
  "calcularPMV tDHT tAnalog h luz =
     (let tempConfort = 23;
          desviacionTemp = tProm tDHT tAnalog - tempConfort;
          pmvCalculado = desviacionTemp * 0.25 + factorHumedad h + factorLuz luz
      in constrain pmvCalculado (- 2) 2)"

section \<open>Hysteresis engine and actuators\<close>

definition actualizarServo :: "int \<Rightarrow> Sistema \<Rightarrow> Sistema" where
  "actualizarServo anguloDeseado s =
     (let s1 = (if anguloDeseado \<noteq> servoAnguloDeseado s
                then s\<lparr>servoAnguloDeseado := anguloDeseado\<rparr> else s)
      in if servoAnguloActual s1 \<noteq> servoAnguloDeseado s1
            \<and> SERVO_DELAY \<le> millis s1 - ultimoCambioServo s1
         then s1\<lparr>servo := servoAnguloDeseado s1,
                 servoAnguloActual := servoAnguloDeseado s1,
                 ultimoCambioServo := millis s1\<rparr>
         else s1)"

text \<open>
  The chain of comparisons at the head of \<open>setActuador\<close> (the value of \<open>nuevoEstado\<close>
  when the chain ends), from the value and the current band.
\<close>

definition nuevoEstado :: "real \<Rightarrow> EstadoPMV \<Rightarrow> EstadoPMV" where
  "nuevoEstado pmvVal actual =
     (if pmvVal > 0.8 then PMV_MUY_CALOR
      else if pmvVal > 0.4 then
        (if actual \<noteq> PMV_MUY_CALOR \<or> pmvVal < 0.6 then PMV_CALOR else actual)
      else if pmvVal \<ge> - 0.4 \<and> pmvVal \<le> 0.4 then PMV_CONFORT
      else if pmvVal < 0.3 \<and> pmvVal \<ge> - 0.8 then
        (if actual \<noteq> PMV_MUY_BAJO \<or> pmvVal > - 0.6 then PMV_BAJO else actual)
      else if pmvVal < - 0.8 then PMV_MUY_BAJO
      else actual)"

definition setActuador :: "real \<Rightarrow> Sistema \<Rightarrow> Sistema" where
  "setActuador pmvVal s =
     (let nuevo = nuevoEstado pmvVal (estadoPMVActual s);
          s1 = (if nuevo \<noteq> estadoPMVActual s
                then s\<lparr>estadoPMVAnterior := estadoPMVActual s, estadoPMVActual := nuevo\<rparr>
                else s)
      in case estadoPMVActual s1 of
           PMV_MUY_CALOR \<Rightarrow>
             (let s2 = actualizarServo 0 (s1\<lparr>relay := True\<rparr>)
              in if \<not> alarmActive s2 then setColor True False False s2 else s2)
         | PMV_CALOR \<Rightarrow>
             (let s2 = actualizarServo 45 (s1\<lparr>relay := True\<rparr>)
              in if \<not> alarmActive s2 \<and> \<not> pmvBajoActive s2
                 then setColor True True False s2 else s2)
         | PMV_CONFORT \<Rightarrow>
             (let s2 = actualizarServo 90 (s1\<lparr>relay := False\<rparr>)
              in if \<not> alarmActive s2 \<and> \<not> pmvBajoActive s2
                 then setColor False True False s2 else s2)
         | PMV_BAJO \<Rightarrow>
             (let s2 = actualizarServo 135 (s1\<lparr>relay := False\<rparr>)
              in if \<not> pmvBajoActive s2 then setColor False True True s2 else s2)
         | PMV_MUY_BAJO \<Rightarrow> actualizarServo 180 (s1\<lparr>relay := False\<rparr>))"

section \<open>Alert state machines\<close>

subsection \<open>High-PMV alarm\<close>

definition triggerAlarm :: "Sistema \<Rightarrow> Sistema" where
  "triggerAlarm s =
     setColor True False False
       (s\<lparr>alarmActive := True, alarmToggleState := False, lastAlarmToggle := millis s\<rparr>)"

definition stopAlarm :: "Sistema \<Rightarrow> Sistema" where
  "stopAlarm s =
     delay 800 (setColor False True False (s\<lparr>alarmActive := False, alarmToggleState := False\<rparr>))"

definition checkAlarm :: "real \<Rightarrow> Sistema \<Rightarrow> Sistema" where
  "checkAlarm pmvVal s =
     (if alarmSilenced s \<and> millis s < alarmSilenceUntil s then s
      else
        (let s1 = s\<lparr>alarmSilenced := False\<rparr>
         in if pmvVal > PMV_ALARM_THRESHOLD
            then (if \<not> alarmActive s1 then triggerAlarm s1 else s1)
            else (if alarmActive s1 then stopAlarm s1 else s1)))"

definition alarmHandler :: "Sistema \<Rightarrow> Sistema" where
  "alarmHandler s =
     (let now = millis s
      in if alarmInterval \<le> now - lastAlarmToggle s
         then
           (let s1 = s\<lparr>lastAlarmToggle := now, alarmToggleState := \<not> alarmToggleState s\<rparr>
            in if alarmToggleState s1 then setColor True False False s1
               else setColor False False False s1)
         else s)"

subsection \<open>Low-PMV indicator\<close>

definition triggerPmvBajo :: "Sistema \<Rightarrow> Sistema" where
  "triggerPmvBajo s =
     setColor False False True
       (s\<lparr>pmvBajoActive := True, pmvBajoToggleState := True, lastPmvBajoToggle := millis s\<rparr>)"

definition stopPmvBajo :: "Sistema \<Rightarrow> Sistema" where
  "stopPmvBajo s = s\<lparr>pmvBajoActive := False, pmvBajoToggleState := False\<rparr>"

definition checkPmvBajo :: "real \<Rightarrow> Sistema \<Rightarrow> Sistema" where
  "checkPmvBajo pmvVal s =
     (if pmvVal < PMV_BAJO_THRESHOLD
      then (if \<not> pmvBajoActive s then triggerPmvBajo s else s)
      else (if pmvBajoActive s then stopPmvBajo s else s))"

definition pmvBajoHandler :: "Sistema \<Rightarrow> Sistema" where
  "pmvBajoHandler s =
     (let now = millis s;
          interval = (if pmvBajoToggleState s then pmvBajoOnTime else pmvBajoOffTime)
      in if interval \<le> now - lastPmvBajoToggle s
         then
           (let s1 = s\<lparr>lastPmvBajoToggle := now, pmvBajoToggleState := \<not> pmvBajoToggleState s\<rparr>
            in if pmvBajoToggleState s1 then setColor False False True s1
               else setColor False False False s1)
         else s)"

section \<open>Lockout\<close>

text \<open>
  \<open>bloqueoSistema\<close> ends with ten tones, each followed by \<open>delay(250)\<close>: the loop of
  \<open>beep\<close> with another tone length.
\<close>

definition bloqueoSistema :: "Sistema \<Rightarrow> Sistema" where
  "bloqueoSistema s =
     beep 10
       (setColor True False False
          (s\<lparr>sistemaBloqueado := True, tiempoBloqueo := millis s, intentosFallidos := 0\<rparr>))"

definition verificarDesbloqueo :: "Sistema \<Rightarrow> Sistema" where
  "verificarDesbloqueo s =
     (if sistemaBloqueado s then
        (if DURACION_BLOQUEO \<le> millis s - tiempoBloqueo s then
           (let s1 = setColor False False True (s\<lparr>sistemaBloqueado := False\<rparr>);
                s2 = delay 1500 (beep 2 s1)
            in s2\<lparr>estado := MENU, usuarioActivo := None\<rparr>)
         else
           (let tiempoTranscurrido = millis s - tiempoBloqueo s
            in if (tiempoTranscurrido div 500) mod 2 = 0
               then setColor True False False s
               else setColor False False False s))
      else s)"

section \<open>Input collaborators\<close>

text \<open>
  What the keypad, the card reader and the sensors deliver during one iteration of
  \<open>loop\<close>: the successive results of \<open>keypad.getKey()\<close> (\<open>NO_KEY\<close> when no key is
  down) and of \<open>leerTag()\<close> (the empty string when no card is read), the two readings of
  the DHT sensor (\<open>None\<close> for \<open>NaN\<close>) and the two analog readings. A poll past the end
  of a list finds nothing. The reading loops of the sketch wait for ever for their key or
  card; on a finite list of polls that does not hold it they yield \<open>None\<close>.
\<close>

record Entrada =
  teclas :: "char list"
  tarjetas :: "string list"
  tempDHT :: "real option"
  humDHT :: "real option"
  valorTemp :: int
  valorLuz :: int

definition NO_KEY :: char where
  "NO_KEY = CHR 0x00"

definition getKey :: "char list \<Rightarrow> char \<times> char list" where
  "getKey ks = (case ks of [] \<Rightarrow> (NO_KEY, []) | k # r \<Rightarrow> (k, r))"

definition leerTag :: "string list \<Rightarrow> string \<times> string list" where
  "leerTag ts = (case ts of [] \<Rightarrow> ('''', []) | t # r \<Rightarrow> (t, r))"

fun leerClave :: "string \<Rightarrow> char list \<Rightarrow> (string \<times> char list) option" where
  "leerClave claveL [] = None"
| "leerClave claveL (key # ks) =
     (if key \<noteq> NO_KEY then
        (if key = CHR ''#'' then Some (claveL, ks)
         else if key = CHR ''*'' then leerClave '''' ks
         else if length claveL < 4 then leerClave (claveL @ [key]) ks
         else leerClave claveL ks)
      else leerClave claveL ks)"

fun leerTexto :: "string \<Rightarrow> char list \<Rightarrow> (string \<times> char list) option" where
  "leerTexto texto [] = None"
| "leerTexto texto (key # ks) =
     (if key \<noteq> NO_KEY then
        (if key = CHR ''#'' then Some (texto, ks)
         else if key = CHR ''*'' then leerTexto '''' ks
         else leerTexto (texto @ [key]) ks)
      else leerTexto texto ks)"

text \<open>The loop \<open>while (tag == "") { tag = leerTag(); delay(100); }\<close> of the registration.\<close>

fun esperarTag :: "string list \<Rightarrow> Sistema \<Rightarrow> (string \<times> string list \<times> Sistema) option" where
  "esperarTag [] s = None"
| "esperarTag (t # ts) s =
     (if t = '''' then esperarTag ts (delay 100 s) else Some (t, ts, delay 100 s))"

section \<open>Session state machine\<close>

text \<open>
  \<open>usuarios\<close> is an array of two cells in the source, and \<open>registrarPorTag\<close> writes cell
  \<open>totalUsuarios\<close> only while that is below 2.
\<close>

definition registrarPorTag :: "char list \<Rightarrow> string list \<Rightarrow> Sistema \<Rightarrow> Sistema option" where
  "registrarPorTag ks ts s =
     (if totalUsuarios s \<ge> 2 then Some (delay 1500 (beep 1 s))
      else
        (case esperarTag ts s of
           None \<Rightarrow> None
         | Some (tagL, ts1, s1) \<Rightarrow>
             (let s2 = delay 2000 (beep 2 s1)
              in case leerTexto '''' ks of
                   None \<Rightarrow> None
                 | Some (nombreL, ks1) \<Rightarrow>
                     (case leerClave '''' ks1 of
                        None \<Rightarrow> None
                      | Some (claveL, ks2) \<Rightarrow>
                          (let s3 = s2\<lparr>usuarios := (usuarios s2)
                                          [totalUsuarios s2 :=
                                             \<lparr>nombre = nombreL, tag = tagL, clave = claveL\<rparr>],
                                        totalUsuarios := totalUsuarios s2 + 1\<rparr>;
                               s4 = delay 1000 (delay 2000 (beep 3 s3))
                           in case esperarTag ts1 s4 of
                                None \<Rightarrow> None
                              | Some (tagConfirm, ts2, s5) \<Rightarrow>
                                  (if tagConfirm = tagL then
                                     (let s6 = delay 1500 (beep 3 s5)
                                      in Some (s6\<lparr>usuarioActivo := Some (totalUsuarios s6 - 1),
                                                   servoAnguloActual := 90,
                                                   servoAnguloDeseado := 90,
                                                   servo := 90,
                                                   ultimoCambioServo := millis s6,
                                                   estado := CONFORT\<rparr>))
                                   else Some ((delay 2000 (beep 1 s5))\<lparr>estado := MENU\<rparr>)))))))"

text \<open>The three cases of the \<open>switch (estado)\<close> of \<open>loop\<close>, one definition each.\<close>

definition loopMenu :: "Entrada \<Rightarrow> Sistema \<Rightarrow> Sistema option" where
  "loopMenu e s =
     (case getKey (teclas e) of
        (key, ks) \<Rightarrow>
          if key = CHR ''1'' then Some (s\<lparr>estado := LOGIN\<rparr>)
          else if key = CHR ''2'' then registrarPorTag ks (tarjetas e) s
          else Some s)"

definition loopLogin :: "Entrada \<Rightarrow> Sistema \<Rightarrow> Sistema option" where
  "loopLogin e s =
     (case leerTag (tarjetas e) of
        (tagL, ts) \<Rightarrow>
          if tagL \<noteq> '''' then
            (case find (\<lambda>i. tag (usuarios s ! i) = tagL) [0..<totalUsuarios s] of
               Some i \<Rightarrow>
                 (let s1 = delay 1000 (beep 2 (s\<lparr>usuarioActivo := Some i\<rparr>))
                  in case leerClave '''' (teclas e) of
                       None \<Rightarrow> None
                     | Some (claveL, ks) \<Rightarrow>
                         if claveL = clave (usuarios s1 ! i) then
                           (let s2 = delay 1500 (setColor False True False
                                       (beep 3 (s1\<lparr>intentosFallidos := 0\<rparr>)))
                            in Some (s2\<lparr>servoAnguloActual := 90,
                                         servoAnguloDeseado := 90,
                                         servo := 90,
                                         ultimoCambioServo := millis s2,
                                         estadoPMVActual := PMV_CONFORT,
                                         estadoPMVAnterior := PMV_CONFORT,
                                         estado := CONFORT\<rparr>))
                         else
                           (let s2 = delay 1500 (setColor True False False
                                       (beep 1 (s1\<lparr>intentosFallidos := intentosFallidos s1 + 1\<rparr>)));
                                s3 = (if intentosFallidos s2 \<ge> 3 then bloqueoSistema s2 else s2)
                            in Some (s3\<lparr>estado := MENU\<rparr>)))
             | None \<Rightarrow> Some ((delay 2000 (beep 1 s))\<lparr>estado := MENU\<rparr>))
          else Some s)"

text \<open>
  The \<open>if (alarmActive) ... else if (pmvBajoActive) ... else ...\<close> that ends the
  \<open>CONFORT\<close> case, from the key \<open>k\<close> that \<open>keypad.getKey()\<close> returns in the branch
  taken.
\<close>

definition atenderConfort :: "char \<Rightarrow> Sistema \<Rightarrow> Sistema" where
  "atenderConfort k s =
     (if alarmActive s then
        (let s3 = alarmHandler s;
             s4 = (if k = CHR ''*''
                   then (let t = stopAlarm s3
                         in t\<lparr>alarmSilenced := True, alarmSilenceUntil := millis t + 60000\<rparr>)
                   else s3)
         in if k = CHR ''#'' then
              (stopPmvBajo (stopAlarm s4))
                \<lparr>estado := MENU, usuarioActivo := None, intentosFallidos := 0,
                 servoAnguloActual := 90, servo := 90\<rparr>
            else
              delay 200
                (if alarmSilenced s4 \<and> millis s4 > alarmSilenceUntil s4
                 then s4\<lparr>alarmSilenced := False\<rparr> else s4))
      else if pmvBajoActive s then
        (let s3 = pmvBajoHandler s
         in if k = CHR ''#'' then
              (stopPmvBajo s3)\<lparr>estado := MENU, usuarioActivo := None, servo := 90\<rparr>
            else delay 200 s3)
      else
        (if k = CHR ''#'' then
           setColor False False True (s\<lparr>estado := MENU, usuarioActivo := None, servo := 90\<rparr>)
         else delay 2000 (delay 2000 s)))"

definition loopConfort :: "Entrada \<Rightarrow> Sistema \<Rightarrow> Sistema" where
  "loopConfort e s =
     (let nan = (tempDHT e = None \<or> humDHT e = None);
          tDHT = (case tempDHT e of Some t \<Rightarrow> if nan then 25 else t | None \<Rightarrow> 25);
          h = (case humDHT e of Some hum \<Rightarrow> if nan then 50 else hum | None \<Rightarrow> 50);
          tAnalog = leerTempAnalogica (valorTemp e);
          luz = valorLuz e;
          s1 = s\<lparr>pmv := calcularPMV tDHT tAnalog h luz\<rparr>;
          s2 = checkPmvBajo (pmv s1) (checkAlarm (pmv s1) (setActuador (pmv s1) s1))
      in atenderConfort (fst (getKey (teclas e))) s2)"

definition loop :: "Entrada \<Rightarrow> Sistema \<Rightarrow> Sistema option" where
  "loop e s =
     (let s1 = verificarDesbloqueo s
      in case estado s1 of
           MENU \<Rightarrow> loopMenu e s1
         | LOGIN \<Rightarrow> loopLogin e s1
         | CONFORT \<Rightarrow> Some (loopConfort e s1))"

subsection \<open>Power-on state and runs\<close>

text \<open>The initialisers of the global variables, then \<open>setup()\<close> (\<open>setup\<close> is a keyword of Isabelle, hence the suffix).\<close>

definition globales :: Sistema where
  "globales =
     \<lparr>usuarios = [\<lparr>nombre = ''laura'', tag = ''5CF8D773'', clave = ''3456''\<rparr>,
                  \<lparr>nombre = '''', tag = '''', clave = ''''\<rparr>],
      totalUsuarios = 1, usuarioActivo = None, pmv = 0, intentosFallidos = 0,
      alarmActive = False, alarmSilenced = False, alarmSilenceUntil = 0,
      lastAlarmToggle = 0, alarmToggleState = False,
      pmvBajoActive = False, lastPmvBajoToggle = 0, pmvBajoToggleState = False,
      sistemaBloqueado = False, tiempoBloqueo = 0,
      servoAnguloActual = 90, servoAnguloDeseado = 90, ultimoCambioServo = 0,
      estado = MENU, estadoPMVActual = PMV_CONFORT, estadoPMVAnterior = PMV_CONFORT,
      reloj = 0, relay = False, color = (False, False, False), servo = 90\<rparr>"

definition setup_ino :: "Sistema \<Rightarrow> Sistema" where
  "setup_ino s = delay 1500 (setColor False False True (s\<lparr>servo := 90, relay := False\<rparr>))"

text \<open>
  The states the sketch can be in between two iterations of \<open>loop\<close>: the state after
  \<open>setup\<close>, the state an iteration returns, and any of them after some time has passed.
\<close>

inductive alcanzable :: "Sistema \<Rightarrow> bool" where
  arranque: "alcanzable (setup_ino globales)"
| espera: "alcanzable s \<Longrightarrow> alcanzable (delay d s)"
| iteracion: "alcanzable s \<Longrightarrow> loop e s = Some s' \<Longrightarrow> alcanzable s'"

code_pred alcanzable .

text \<open>Successive iterations of \<open>loop\<close>, one input record each.\<close>

fun ejecutar :: "Entrada list \<Rightarrow> Sistema \<Rightarrow> Sistema option" where
  "ejecutar [] s = Some s"
| "ejecutar (e # es) s = (case loop e s of None \<Rightarrow> None | Some s' \<Rightarrow> ejecutar es s')"

text \<open>
  The inputs on which the \<open>LOGIN\<close> case of \<open>loop\<close> reaches its branch
  \<open>Clave Erronea\<close>: a card is read, its tag is registered, and the key sequence ends a
  PIN entry that differs from the PIN of that user. \<open>teclaMenu\<close> is the key that the
  \<open>MENU\<close> case reads.
\<close>

definition claveErronea :: "Entrada \<Rightarrow> Sistema \<Rightarrow> bool" where
  "claveErronea e s =
     (case leerTag (tarjetas e) of
        (tagL, ts) \<Rightarrow>
          tagL \<noteq> '''' \<and>
          (case find (\<lambda>i. tag (usuarios s ! i) = tagL) [0..<totalUsuarios s] of
             None \<Rightarrow> False
           | Some i \<Rightarrow>
               (case leerClave '''' (teclas e) of
                  None \<Rightarrow> False
                | Some (claveL, ks) \<Rightarrow> claveL \<noteq> clave (usuarios s ! i))))"

definition teclaMenu :: "Entrada \<Rightarrow> char" where
  "teclaMenu e = fst (getKey (teclas e))"

text \<open>An iteration during which no key is down, no card is near and the DHT sensor fails.\<close>

definition sinEntrada :: Entrada where
  "sinEntrada =
     \<lparr>teclas = [], tarjetas = [], tempDHT = None, humDHT = None, valorTemp = 0, valorLuz = 0\<rparr>"

text \<open>
  The inputs on which the \<open>LOGIN\<close> case reaches \<open>Acceso OK\<close>: as \<open>claveErronea\<close>, with
  the PIN of the user entered.
\<close>

definition claveCorrecta :: "Entrada \<Rightarrow> Sistema \<Rightarrow> bool" where
  "claveCorrecta e s =
     (case leerTag (tarjetas e) of
        (tagL, ts) \<Rightarrow>
          tagL \<noteq> '''' \<and>
          (case find (\<lambda>i. tag (usuarios s ! i) = tagL) [0..<totalUsuarios s] of
             None \<Rightarrow> False
           | Some i \<Rightarrow>
               (case leerClave '''' (teclas e) of
                  None \<Rightarrow> False
                | Some (claveL, ks) \<Rightarrow> claveL = clave (usuarios s ! i))))"

text \<open>
  A run with waiting times: each step lets \<open>d\<close> ticks pass and then runs one iteration of
  \<open>loop\<close>. \<open>todos P\<close> says that \<open>P\<close> holds of the input and the state at the head of
  every iteration of the run.
\<close>

fun correr :: "(ulong \<times> Entrada) list \<Rightarrow> Sistema \<Rightarrow> Sistema option" where
  "correr [] s = Some s"
| "correr ((d, e) # ps) s =
     (case loop e (delay d s) of None \<Rightarrow> None | Some s' \<Rightarrow> correr ps s')"

fun todos :: "(Entrada \<Rightarrow> Sistema \<Rightarrow> bool) \<Rightarrow> (ulong \<times> Entrada) list \<Rightarrow> Sistema \<Rightarrow> bool" where
  "todos P [] s = True"
| "todos P ((d, e) # ps) s =
     (P e (delay d s) \<and>
      (case loop e (delay d s) of None \<Rightarrow> True | Some s' \<Rightarrow> todos P ps s'))"

text \<open>
  The state of the \<open>CONFORT\<close> case after the sensors are read and \<open>setActuador\<close>,
  \<open>checkAlarm\<close> and \<open>checkPmvBajo\<close> have run: the argument \<open>loopConfort\<close> gives to
  \<open>atenderConfort\<close>.
\<close>

definition medirConfort :: "Entrada \<Rightarrow> Sistema \<Rightarrow> Sistema" where
  "medirConfort e s =
     (let nan = (tempDHT e = None \<or> humDHT e = None);
          tDHT = (case tempDHT e of Some t \<Rightarrow> if nan then 25 else t | None \<Rightarrow> 25);
          h = (case humDHT e of Some hum \<Rightarrow> if nan then 50 else hum | None \<Rightarrow> 50);
          tAnalog = leerTempAnalogica (valorTemp e);
          luz = valorLuz e;
          s1 = s\<lparr>pmv := calcularPMV tDHT tAnalog h luz\<rparr>
      in checkPmvBajo (pmv s1) (checkAlarm (pmv s1) (setActuador (pmv s1) s1)))"


text \<open>
  What an iteration that starts in state \<open>s\<close> with input \<open>e\<close> does to the failure counter
  and the lock: \<open>fallo\<close>, it verifies a PIN and the PIN is wrong; \<open>acceso\<close>, it verifies a
  PIN and the PIN is right; \<open>salidaAlarma\<close>, it leaves \<open>CONFORT\<close> by the key \<open>#\<close> with the
  alarm active; \<open>bloquea\<close>, it is a \<open>fallo\<close> that brings the counter to 3.
  \<open>antesDelPlazo t\<close>: at the head of the iteration fewer than \<open>DURACION_BLOQUEO\<close> ticks
  have passed since tick \<open>t\<close>.
\<close>

definition fallo :: "Entrada \<Rightarrow> Sistema \<Rightarrow> bool" where
  "fallo e s =
     (estado (verificarDesbloqueo s) = LOGIN \<and> claveErronea e (verificarDesbloqueo s))"

definition acceso :: "Entrada \<Rightarrow> Sistema \<Rightarrow> bool" where
  "acceso e s =
     (estado (verificarDesbloqueo s) = LOGIN \<and> claveCorrecta e (verificarDesbloqueo s))"

definition salidaAlarma :: "Entrada \<Rightarrow> Sistema \<Rightarrow> bool" where
  "salidaAlarma e s =
     (estado (verificarDesbloqueo s) = CONFORT \<and>
      alarmActive (medirConfort e (verificarDesbloqueo s)) \<and>
      fst (getKey (teclas e)) = CHR ''#'')"

definition bloquea :: "Entrada \<Rightarrow> Sistema \<Rightarrow> bool" where
  "bloquea e s = (fallo e s \<and> intentosFallidos s + 1 \<ge> 3)"

definition noBloquea :: "Entrada \<Rightarrow> Sistema \<Rightarrow> bool" where
  "noBloquea e s = (\<not> bloquea e s)"

definition antesDelPlazo :: "ulong \<Rightarrow> Entrada \<Rightarrow> Sistema \<Rightarrow> bool" where
  "antesDelPlazo t e s = (reloj s - t < DURACION_BLOQUEO)"

text \<open>
  Inputs of single iterations, used in the runs below: the key \<open>1\<close> in the menu; the
  card of the first user with a wrong and with the right PIN; a registration (key \<open>2\<close>,
  the name \<open>7\<close>, the PIN 2222, the new card read twice); sensor readings that give an
  index near 0, and readings that give the index 1.5, alone or with one key.
\<close>

definition entradaMenu1 :: Entrada where
  "entradaMenu1 = sinEntrada\<lparr>teclas := ''1''\<rparr>"

definition entradaPinMalo :: Entrada where
  "entradaPinMalo = sinEntrada\<lparr>teclas := ''1111#'', tarjetas := [''5CF8D773'']\<rparr>"

definition entradaPinBueno :: Entrada where
  "entradaPinBueno = sinEntrada\<lparr>teclas := ''3456#'', tarjetas := [''5CF8D773'']\<rparr>"

definition entradaRegistro :: Entrada where
  "entradaRegistro = sinEntrada\<lparr>teclas := ''27#2222#'', tarjetas := [''AB12'', ''AB12'']\<rparr>"


definition entradaCalor :: Entrada where
  "entradaCalor =
     sinEntrada\<lparr>tempDHT := Some 30, humDHT := Some 50, valorTemp := 573, valorLuz := 300\<rparr>"

definition entradaCalorTecla :: "char \<Rightarrow> Entrada" where
  "entradaCalorTecla k = entradaCalor\<lparr>teclas := [k]\<rparr>"

text \<open>
  \<open>cuenta P\<close> counts the iterations of a run at whose head \<open>P\<close> holds. \<open>sinReinicio\<close>: the
  iteration is neither an \<open>acceso\<close> nor a \<open>salidaAlarma\<close>, the two events besides a lock
  that set the failure counter back to 0.
\<close>

fun cuenta :: "(Entrada \<Rightarrow> Sistema \<Rightarrow> bool) \<Rightarrow> (ulong \<times> Entrada) list \<Rightarrow> Sistema \<Rightarrow> nat" where
  "cuenta P [] s = 0"
| "cuenta P ((d, e) # ps) s =
     (if P e (delay d s) then 1 else 0) +
     (case loop e (delay d s) of None \<Rightarrow> 0 | Some s' \<Rightarrow> cuenta P ps s')"

definition sinReinicio :: "Entrada \<Rightarrow> Sistema \<Rightarrow> bool" where
  "sinReinicio e s = (\<not> acceso e s \<and> \<not> salidaAlarma e s)"

section \<open>Proofs\<close>

subsection \<open>What the actuator functions leave alone\<close>

lemma actualizarServo_campos:
  "estadoPMVActual (actualizarServo a s) = estadoPMVActual s"
  "alarmActive (actualizarServo a s) = alarmActive s"
  "pmvBajoActive (actualizarServo a s) = pmvBajoActive s"
  "relay (actualizarServo a s) = relay s"
  "servoAnguloDeseado (actualizarServo a s) = a"
  by (simp_all add: actualizarServo_def Let_def)

lemma setColor_campos:
  "estadoPMVActual (setColor r g b s) = estadoPMVActual s"
  "relay (setColor r g b s) = relay s"
  "servoAnguloDeseado (setColor r g b s) = servoAnguloDeseado s"
  by (simp_all add: setColor_def)

lemma estado_setActuador:
  "estadoPMVActual (setActuador pmvVal s) = nuevoEstado pmvVal (estadoPMVActual s)"
  by (cases "nuevoEstado pmvVal (estadoPMVActual s)")
     (simp_all add: setActuador_def Let_def actualizarServo_campos setColor_campos)

lemma relay_setActuador:
  "relay (setActuador pmvVal s) =
     (case nuevoEstado pmvVal (estadoPMVActual s) of
        PMV_MUY_CALOR \<Rightarrow> True | PMV_CALOR \<Rightarrow> True | _ \<Rightarrow> False)"
  by (cases "nuevoEstado pmvVal (estadoPMVActual s)")
     (simp_all add: setActuador_def Let_def actualizarServo_campos setColor_campos)

lemma deseado_setActuador:
  "servoAnguloDeseado (setActuador pmvVal s) =
     (case nuevoEstado pmvVal (estadoPMVActual s) of
        PMV_MUY_CALOR \<Rightarrow> 0 | PMV_CALOR \<Rightarrow> 45 | PMV_CONFORT \<Rightarrow> 90
      | PMV_BAJO \<Rightarrow> 135 | PMV_MUY_BAJO \<Rightarrow> 180)"
  by (cases "nuevoEstado pmvVal (estadoPMVActual s)")
     (simp_all add: setActuador_def Let_def actualizarServo_campos setColor_campos)

lemma se_queda_muy_calor:
  "(nuevoEstado pmvVal PMV_MUY_CALOR = PMV_MUY_CALOR) = (0.6 \<le> pmvVal)"
  by (simp add: nuevoEstado_def)

lemma se_queda_muy_bajo:
  "(nuevoEstado pmvVal PMV_MUY_BAJO = PMV_MUY_BAJO) = (pmvVal \<le> - 0.6)"
  by (simp add: nuevoEstado_def)

lemma fold_muy_calor:
  "estadoPMVActual s = PMV_MUY_CALOR \<Longrightarrow> \<forall>v \<in> set vs. 0.6 \<le> v \<Longrightarrow>
     estadoPMVActual (fold setActuador vs s) = PMV_MUY_CALOR"
proof (induction vs arbitrary: s)
  case Nil
  then show ?case by simp
next
  case (Cons v vs)
  have "estadoPMVActual (setActuador v s) = PMV_MUY_CALOR"
    using Cons.prems se_queda_muy_calor [of v] by (simp add: estado_setActuador)
  with Cons show ?case by simp
qed

lemma fold_muy_bajo:
  "estadoPMVActual s = PMV_MUY_BAJO \<Longrightarrow> \<forall>v \<in> set vs. v \<le> - 0.6 \<Longrightarrow>
     estadoPMVActual (fold setActuador vs s) = PMV_MUY_BAJO"
proof (induction vs arbitrary: s)
  case Nil
  then show ?case by simp
next
  case (Cons v vs)
  have "estadoPMVActual (setActuador v s) = PMV_MUY_BAJO"
    using Cons.prems se_queda_muy_bajo [of v] by (simp add: estado_setActuador)
  with Cons show ?case by simp
qed

text \<open>
  Claim C1 (hysteresis, no chatter). From the band \<open>PMV_MUY_CALOR\<close> one call of
  \<open>setActuador\<close> keeps the band exactly when the value is at least 0.6, so the band is
  left only by a value below 0.6; from \<open>PMV_MUY_BAJO\<close> the band is kept exactly when the
  value is at most -0.6. Over any sequence of successive values that are all at least 0.6
  (0.65, 0.75, 0.65, ...) the band stays \<open>PMV_MUY_CALOR\<close>, and over values that are all
  at most -0.6 it stays \<open>PMV_MUY_BAJO\<close>.
\<close>

theorem C1_histeresis_sin_rebote:
  "(estadoPMVActual s = PMV_MUY_CALOR \<longrightarrow>
      (estadoPMVActual (setActuador pmvVal s) = PMV_MUY_CALOR) = (0.6 \<le> pmvVal)) \<and>
   (estadoPMVActual s = PMV_MUY_BAJO \<longrightarrow>
      (estadoPMVActual (setActuador pmvVal s) = PMV_MUY_BAJO) = (pmvVal \<le> - 0.6)) \<and>
   (estadoPMVActual s = PMV_MUY_CALOR \<and> (\<forall>v \<in> set vs. 0.6 \<le> v) \<longrightarrow>
      estadoPMVActual (fold setActuador vs s) = PMV_MUY_CALOR) \<and>
   (estadoPMVActual s = PMV_MUY_BAJO \<and> (\<forall>v \<in> set vs. v \<le> - 0.6) \<longrightarrow>
      estadoPMVActual (fold setActuador vs s) = PMV_MUY_BAJO)"
  using se_queda_muy_calor [of pmvVal] se_queda_muy_bajo [of pmvVal]
    fold_muy_calor [of s vs] fold_muy_bajo [of s vs]
  by (simp add: estado_setActuador)

theorem C1_histeresis_sin_rebote_witness:
  "estadoPMVActual (globales\<lparr>estadoPMVActual := PMV_MUY_CALOR\<rparr>) = PMV_MUY_CALOR \<and>
   (0.6 :: real) \<le> 0.65 \<and> (0.6 :: real) \<le> 0.75 \<and>
   estadoPMVActual (fold setActuador [0.65, 0.75, 0.65, 0.75]
      (globales\<lparr>estadoPMVActual := PMV_MUY_CALOR\<rparr>)) = PMV_MUY_CALOR \<and>
   estadoPMVActual (setActuador 0.59 (globales\<lparr>estadoPMVActual := PMV_MUY_CALOR\<rparr>)) \<noteq> PMV_MUY_CALOR"
  using C1_histeresis_sin_rebote
    [of "globales\<lparr>estadoPMVActual := PMV_MUY_CALOR\<rparr>" "0.59" "[0.65, 0.75, 0.65, 0.75]"]
  by simp

text \<open>
  Claim C7 (band overlap). For every previous band, a value in \<open>[0.3, 0.4]\<close> (0.35 among
  them) gives the band \<open>PMV_CONFORT\<close>. The test of \<open>PMV_CONFORT\<close> stands before the
  test of \<open>PMV_BAJO\<close> in the chain, so the values from -0.4 up to 0.3, which pass both
  tests, give \<open>PMV_CONFORT\<close> as well.
\<close>

theorem C7_solapamiento_confort:
  "(0.3 \<le> pmvVal \<and> pmvVal \<le> 0.4 \<longrightarrow> estadoPMVActual (setActuador pmvVal s) = PMV_CONFORT) \<and>
   (- 0.4 \<le> pmvVal \<and> pmvVal < 0.3 \<longrightarrow> estadoPMVActual (setActuador pmvVal s) = PMV_CONFORT)"
  by (simp add: estado_setActuador nuevoEstado_def)

theorem C7_solapamiento_confort_witness:
  "(0.3 :: real) \<le> 0.35 \<and> (0.35 :: real) \<le> 0.4 \<and>
   estadoPMVActual (setActuador 0.35 (globales\<lparr>estadoPMVActual := PMV_BAJO\<rparr>)) = PMV_CONFORT"
  using C7_solapamiento_confort [of "0.35" "globales\<lparr>estadoPMVActual := PMV_BAJO\<rparr>"]
  by simp

lemma muy_calor:
  "pmvVal > 0.8 \<Longrightarrow>
     estadoPMVActual (setActuador pmvVal s) = PMV_MUY_CALOR \<and> relay (setActuador pmvVal s) \<and>
     servoAnguloDeseado (setActuador pmvVal s) = 0"
  by (simp add: estado_setActuador relay_setActuador deseado_setActuador nuevoEstado_def)

lemma pmv_escenario: "calcularPMV 30 28 50 300 = 1.5"
  by (simp add: calcularPMV_def tProm_def factorHumedad_def factorLuz_def constrain_def Let_def)

text \<open>
  Claim C5 (end-to-end scenario). For the readings 30, 28, 50 and 300 the average
  temperature is 29, the humidity and light factors are 0 and the index is 1.5: the sum
  \<open>(29 - 23) * 0.25 + 0 + 0\<close>, which the final \<open>constrain\<close> leaves as it is. Given to
  \<open>setActuador\<close> in any state, that index yields the band \<open>PMV_MUY_CALOR\<close>, the relay
  on and the desired servo angle 0.
\<close>

theorem C5_escenario:
  "tProm 30 28 = 29 \<and> factorHumedad 50 = 0 \<and> factorLuz 300 = 0 \<and>
   calcularPMV 30 28 50 300 = 1.5 \<and>
   (tProm 30 28 - 23) * 0.25 + factorHumedad 50 + factorLuz 300 = calcularPMV 30 28 50 300 \<and>
   estadoPMVActual (setActuador (calcularPMV 30 28 50 300) s) = PMV_MUY_CALOR \<and>
   relay (setActuador (calcularPMV 30 28 50 300) s) \<and>
   servoAnguloDeseado (setActuador (calcularPMV 30 28 50 300) s) = 0"
proof -
  have v: "calcularPMV 30 28 50 300 = 1.5" by (rule pmv_escenario)
  have f: "tProm 30 28 = 29" "factorHumedad 50 = 0" "factorLuz 300 = 0"
    by (simp_all add: tProm_def factorHumedad_def factorLuz_def constrain_def)
  have "(1.5 :: real) > 0.8" by simp
  from muy_calor [OF this, of s] show ?thesis unfolding v f by simp
qed

theorem C5_escenario_witness:
  "estadoPMVActual (setActuador (calcularPMV 30 28 50 300) (globales\<lparr>estadoPMVActual := PMV_MUY_BAJO\<rparr>))
     = PMV_MUY_CALOR"
  using C5_escenario [of "globales\<lparr>estadoPMVActual := PMV_MUY_BAJO\<rparr>"] by simp

lemma constrain_mono: "a \<le> b \<Longrightarrow> lo \<le> hi \<Longrightarrow> constrain a lo hi \<le> constrain b lo hi"
  by (simp add: constrain_def)

text \<open>
  Claim C8 (monotonicity). With the second temperature, the humidity and the light held
  fixed, a greater or equal first temperature never gives a smaller index, the final
  clamp to \<open>[-2, 2]\<close> included.
\<close>

theorem C8_monotonia:
  "t1 \<le> t2 \<Longrightarrow> calcularPMV t1 tAnalog h luz \<le> calcularPMV t2 tAnalog h luz"
  unfolding calcularPMV_def Let_def
  by (rule constrain_mono) (simp_all add: tProm_def)

theorem C8_monotonia_witness:
  "(20 :: real) \<le> 30 \<and> calcularPMV 20 28 50 300 \<le> calcularPMV 30 28 50 300"
  using C8_monotonia [of 20 30 28 50 300] by simp

subsection \<open>Servo cooldown\<close>

lemma actualizarServo_mueve:
  "servoAnguloActual s \<noteq> a \<Longrightarrow> SERVO_DELAY \<le> reloj s - ultimoCambioServo s \<Longrightarrow>
     actualizarServo a s =
       s\<lparr>servoAnguloDeseado := a, servo := a, servoAnguloActual := a, ultimoCambioServo := reloj s\<rparr>"
  by (simp add: actualizarServo_def Let_def millis_def)

lemma actualizarServo_quieto:
  "servoAnguloActual s = a \<or> \<not> SERVO_DELAY \<le> reloj s - ultimoCambioServo s \<Longrightarrow>
     actualizarServo a s = s\<lparr>servoAnguloDeseado := a\<rparr>"
  by (auto simp add: actualizarServo_def Let_def millis_def)

lemma servo_un_paso:
  "servoAnguloDeseado (actualizarServo a s) = a \<and>
   (servoAnguloActual (actualizarServo a s) \<noteq> servoAnguloActual s \<or>
    servo (actualizarServo a s) \<noteq> servo s \<longrightarrow>
      servoAnguloActual s \<noteq> a \<and> SERVO_DELAY \<le> reloj s - ultimoCambioServo s \<and>
      servoAnguloActual (actualizarServo a s) = a \<and> servo (actualizarServo a s) = a \<and>
      ultimoCambioServo (actualizarServo a s) = reloj s)"
proof (cases "servoAnguloActual s \<noteq> a \<and> SERVO_DELAY \<le> reloj s - ultimoCambioServo s")
  case True
  then show ?thesis by (simp add: actualizarServo_mueve)
next
  case False
  then have "actualizarServo a s = s\<lparr>servoAnguloDeseado := a\<rparr>"
    by (intro actualizarServo_quieto) auto
  then show ?thesis by simp
qed

lemma servo_dos_cambios:
  assumes "servoAnguloActual s \<noteq> a1" and "SERVO_DELAY \<le> reloj s - ultimoCambioServo s"
    and "d < SERVO_DELAY"
  shows "servoAnguloActual (actualizarServo a1 s) = a1 \<and>
     servo (actualizarServo a1 s) = a1 \<and>
     servoAnguloActual (actualizarServo a2 (delay d (actualizarServo a1 s))) = a1 \<and>
     servo (actualizarServo a2 (delay d (actualizarServo a1 s))) = a1 \<and>
     servoAnguloDeseado (actualizarServo a2 (delay d (actualizarServo a1 s))) = a2 \<and>
     (SERVO_DELAY \<le> d + d2 \<longrightarrow>
        servoAnguloActual (actualizarServo a2
          (delay d2 (actualizarServo a2 (delay d (actualizarServo a1 s))))) = a2 \<and>
        servo (actualizarServo a2
          (delay d2 (actualizarServo a2 (delay d (actualizarServo a1 s))))) = a2)"
proof -
  define s1 where "s1 = actualizarServo a1 s"
  define s2 where "s2 = actualizarServo a2 (delay d s1)"
  define s3 where "s3 = actualizarServo a2 (delay d2 s2)"
  have e1: "s1 = s\<lparr>servoAnguloDeseado := a1, servo := a1, servoAnguloActual := a1,
                    ultimoCambioServo := reloj s\<rparr>"
    unfolding s1_def using assms(1,2) by (rule actualizarServo_mueve)
  have "\<not> SERVO_DELAY \<le> reloj (delay d s1) - ultimoCambioServo (delay d s1)"
    using assms(3) by (simp add: e1 delay_def)
  then have e2: "s2 = (delay d s1)\<lparr>servoAnguloDeseado := a2\<rparr>"
    unfolding s2_def by (intro actualizarServo_quieto) simp
  have f1: "servoAnguloActual s1 = a1" "servo s1 = a1"
    by (simp_all add: e1)
  have f2: "servoAnguloActual s2 = a1" "servo s2 = a1" "servoAnguloDeseado s2 = a2"
    by (simp_all add: e2 e1 delay_def)
  have r: "reloj (delay d2 s2) - ultimoCambioServo (delay d2 s2) = d + d2"
    by (simp add: e2 e1 delay_def)
  have f3: "servoAnguloActual s3 = a2 \<and> servo s3 = a2" if e: "SERVO_DELAY \<le> d + d2"
  proof (cases "a1 = a2")
    case True
    then have "servoAnguloActual (delay d2 s2) = a2"
      using f2 by (simp add: delay_def)
    then have "s3 = (delay d2 s2)\<lparr>servoAnguloDeseado := a2\<rparr>"
      unfolding s3_def by (intro actualizarServo_quieto) simp
    then show ?thesis using f2 True by (simp add: delay_def)
  next
    case False
    then have "servoAnguloActual (delay d2 s2) \<noteq> a2"
      using f2 by (simp add: delay_def)
    moreover have "SERVO_DELAY \<le> reloj (delay d2 s2) - ultimoCambioServo (delay d2 s2)"
      using e r by simp
    ultimately show ?thesis
      unfolding s3_def by (simp add: actualizarServo_mueve)
  qed
  show ?thesis
    using f1 f2 f3 unfolding s3_def s2_def s1_def by simp
qed

lemma servo_por_llamada:
  "servoAnguloDeseado (actualizarServo a s) = a \<and>
   (servoAnguloActual (actualizarServo a s) \<noteq> servoAnguloActual s \<or>
    servo (actualizarServo a s) \<noteq> servo s \<longrightarrow>
      servoAnguloActual s \<noteq> a \<and> SERVO_DELAY \<le> reloj s - ultimoCambioServo s \<and>
      servoAnguloActual (actualizarServo a s) = a \<and> servo (actualizarServo a s) = a \<and>
      ultimoCambioServo (actualizarServo a s) = reloj s) \<and>
   (servoAnguloActual s \<noteq> a \<and> SERVO_DELAY \<le> reloj s - ultimoCambioServo s \<and> d < SERVO_DELAY \<longrightarrow>
      servoAnguloActual (actualizarServo a s) = a \<and>
      servo (actualizarServo a s) = a \<and>
      servoAnguloActual (actualizarServo a2 (delay d (actualizarServo a s))) = a \<and>
      servo (actualizarServo a2 (delay d (actualizarServo a s))) = a \<and>
      servoAnguloDeseado (actualizarServo a2 (delay d (actualizarServo a s))) = a2 \<and>
      (SERVO_DELAY \<le> d + d2 \<longrightarrow>
         servoAnguloActual (actualizarServo a2
           (delay d2 (actualizarServo a2 (delay d (actualizarServo a s))))) = a2 \<and>
         servo (actualizarServo a2
           (delay d2 (actualizarServo a2 (delay d (actualizarServo a s))))) = a2))"
  using servo_un_paso [of a s] servo_dos_cambios [of s a d a2 d2]
  by blast

subsection \<open>Lockout\<close>

lemma beep_reloj: "beep n s = s\<lparr>reloj := reloj s + 250 * of_nat n\<rparr>"
proof (induction n arbitrary: s)
  case 0
  then show ?case by simp
next
  case (Suc n)
  then show ?case by (simp add: delay_def algebra_simps)
qed

lemma bloqueoSistema_efecto:
  "sistemaBloqueado (bloqueoSistema s)"
  "intentosFallidos (bloqueoSistema s) = 0"
  "tiempoBloqueo (bloqueoSistema s) = reloj s"
  "reloj (bloqueoSistema s) = reloj s + 2500"
  "estado (bloqueoSistema s) = estado s"
  "usuarios (bloqueoSistema s) = usuarios s"
  "totalUsuarios (bloqueoSistema s) = totalUsuarios s"
  by (simp_all add: bloqueoSistema_def beep_reloj setColor_def millis_def)

lemma verificarDesbloqueo_libre: "\<not> sistemaBloqueado s \<Longrightarrow> verificarDesbloqueo s = s"
  by (simp add: verificarDesbloqueo_def)

lemma verificarDesbloqueo_vence:
  "sistemaBloqueado s \<Longrightarrow> DURACION_BLOQUEO \<le> reloj s - tiempoBloqueo s \<Longrightarrow>
     verificarDesbloqueo s =
       s\<lparr>sistemaBloqueado := False, color := (False, False, True),
         reloj := reloj s + 2000, estado := MENU, usuarioActivo := None\<rparr>"
  by (simp add: verificarDesbloqueo_def Let_def beep_reloj setColor_def delay_def millis_def)

lemma verificarDesbloqueo_sigue:
  "sistemaBloqueado s \<Longrightarrow> reloj s - tiempoBloqueo s < DURACION_BLOQUEO \<Longrightarrow>
     verificarDesbloqueo s =
       s\<lparr>color := (if ((reloj s - tiempoBloqueo s) div 500) mod 2 = 0
                    then (True, False, False) else (False, False, False))\<rparr>"
  by (simp add: verificarDesbloqueo_def Let_def setColor_def millis_def not_le [symmetric])

lemma getKey_menu: "teclaMenu e = k \<Longrightarrow> \<exists>ks. getKey (teclas e) = (k, ks)"
  by (cases "getKey (teclas e)") (simp add: teclaMenu_def)

lemma loopMenu_login:
  "teclaMenu e = CHR ''1'' \<Longrightarrow> loopMenu e s = Some (s\<lparr>estado := LOGIN\<rparr>)"
  by (auto simp add: loopMenu_def dest: getKey_menu)

lemma loop_menu_login:
  "estado s = MENU \<Longrightarrow> \<not> sistemaBloqueado s \<Longrightarrow> teclaMenu e = CHR ''1'' \<Longrightarrow>
     loop e s = Some (s\<lparr>estado := LOGIN\<rparr>)"
  by (simp add: loop_def verificarDesbloqueo_libre loopMenu_login)

lemma claveErronea_datos:
  "claveErronea e s \<Longrightarrow>
     \<exists>tagL ts i claveL ks.
       leerTag (tarjetas e) = (tagL, ts) \<and> tagL \<noteq> [] \<and>
       find (\<lambda>i. tag (usuarios s ! i) = tagL) [0..<totalUsuarios s] = Some i \<and>
       leerClave [] (teclas e) = Some (claveL, ks) \<and> claveL \<noteq> clave (usuarios s ! i)"
  by (auto simp add: claveErronea_def split: prod.splits option.splits)

lemma claveErronea_usuarios:
  "usuarios s' = usuarios s \<Longrightarrow> totalUsuarios s' = totalUsuarios s \<Longrightarrow>
     claveErronea e s' = claveErronea e s"
  by (simp add: claveErronea_def cong: prod.case_cong option.case_cong)

lemma loopLogin_fallo:
  assumes "claveErronea e s"
  shows "\<exists>s'. loopLogin e s = Some s' \<and> estado s' = MENU \<and>
           usuarios s' = usuarios s \<and> totalUsuarios s' = totalUsuarios s \<and>
           (if intentosFallidos s + 1 \<ge> 3
            then sistemaBloqueado s' \<and> intentosFallidos s' = 0 \<and>
                 tiempoBloqueo s' + 2500 = reloj s'
            else sistemaBloqueado s' = sistemaBloqueado s \<and>
                 tiempoBloqueo s' = tiempoBloqueo s \<and>
                 intentosFallidos s' = intentosFallidos s + 1)"
proof -
  from claveErronea_datos [OF assms] obtain tagL ts i claveL ks where
    d: "leerTag (tarjetas e) = (tagL, ts)" "tagL \<noteq> []"
       "find (\<lambda>i. tag (usuarios s ! i) = tagL) [0..<totalUsuarios s] = Some i"
       "leerClave [] (teclas e) = Some (claveL, ks)" "claveL \<noteq> clave (usuarios s ! i)"
    by blast
  define s2 where "s2 = delay 1500 (setColor True False False (beep 1
      ((delay 1000 (beep 2 (s\<lparr>usuarioActivo := Some i\<rparr>)))
         \<lparr>intentosFallidos := intentosFallidos s + 1\<rparr>)))"
  have f: "intentosFallidos s2 = intentosFallidos s + 1" "usuarios s2 = usuarios s"
    "totalUsuarios s2 = totalUsuarios s" "sistemaBloqueado s2 = sistemaBloqueado s"
    "tiempoBloqueo s2 = tiempoBloqueo s"
    by (simp_all add: s2_def beep_reloj delay_def setColor_def)
  have u: "usuarios (delay 1000 (beep 2 (s\<lparr>usuarioActivo := Some i\<rparr>))) = usuarios s"
    "intentosFallidos (delay 1000 (beep 2 (s\<lparr>usuarioActivo := Some i\<rparr>))) = intentosFallidos s"
    by (simp_all add: beep_reloj delay_def)
  have l: "loopLogin e s =
      Some ((if intentosFallidos s2 \<ge> 3 then bloqueoSistema s2 else s2)\<lparr>estado := MENU\<rparr>)"
    unfolding loopLogin_def Let_def s2_def using d u by simp
  show ?thesis
  proof (cases "intentosFallidos s + 1 \<ge> 3")
    case True
    then show ?thesis using l f by (simp add: bloqueoSistema_efecto)
  next
    case False
    then show ?thesis using l f by simp
  qed
qed

lemma loop_login_fallo:
  assumes "estado s = LOGIN" and "\<not> sistemaBloqueado s" and "claveErronea e s"
  shows "\<exists>s'. loop e s = Some s' \<and> estado s' = MENU \<and>
           usuarios s' = usuarios s \<and> totalUsuarios s' = totalUsuarios s \<and>
           (if intentosFallidos s + 1 \<ge> 3
            then sistemaBloqueado s' \<and> intentosFallidos s' = 0 \<and>
                 tiempoBloqueo s' + 2500 = reloj s'
            else \<not> sistemaBloqueado s' \<and> intentosFallidos s' = intentosFallidos s + 1)"
  using loopLogin_fallo [OF assms(3)] assms(1,2)
  by (auto simp add: loop_def verificarDesbloqueo_libre split: if_splits)

subsection \<open>What each function leaves alone\<close>

lemma actualizarServo_conserva:
  "sistemaBloqueado (actualizarServo a s) = sistemaBloqueado s"
  "alarmSilenced (actualizarServo a s) = alarmSilenced s"
  "alarmSilenceUntil (actualizarServo a s) = alarmSilenceUntil s"
  "pmv (actualizarServo a s) = pmv s"
  "reloj (actualizarServo a s) = reloj s"
  by (simp_all add: actualizarServo_def Let_def)

lemma setColor_conserva:
  "sistemaBloqueado (setColor r g b s) = sistemaBloqueado s"
  "alarmActive (setColor r g b s) = alarmActive s"
  "alarmSilenced (setColor r g b s) = alarmSilenced s"
  "alarmSilenceUntil (setColor r g b s) = alarmSilenceUntil s"
  "pmvBajoActive (setColor r g b s) = pmvBajoActive s"
  "pmv (setColor r g b s) = pmv s"
  "reloj (setColor r g b s) = reloj s"
  by (simp_all add: setColor_def)

lemma setActuador_conserva:
  "sistemaBloqueado (setActuador pmvVal s) = sistemaBloqueado s"
  "alarmActive (setActuador pmvVal s) = alarmActive s"
  "alarmSilenced (setActuador pmvVal s) = alarmSilenced s"
  "alarmSilenceUntil (setActuador pmvVal s) = alarmSilenceUntil s"
  "pmvBajoActive (setActuador pmvVal s) = pmvBajoActive s"
  "pmv (setActuador pmvVal s) = pmv s"
  "reloj (setActuador pmvVal s) = reloj s"
  by (cases "nuevoEstado pmvVal (estadoPMVActual s)";
      simp add: setActuador_def Let_def actualizarServo_campos actualizarServo_conserva
        setColor_conserva)+

lemma alarma_conserva:
  "sistemaBloqueado (triggerAlarm s) = sistemaBloqueado s"
  "sistemaBloqueado (stopAlarm s) = sistemaBloqueado s"
  "sistemaBloqueado (checkAlarm pmvVal s) = sistemaBloqueado s"
  "sistemaBloqueado (alarmHandler s) = sistemaBloqueado s"
  "pmv (checkAlarm pmvVal s) = pmv s"
  "pmvBajoActive (checkAlarm pmvVal s) = pmvBajoActive s"
  "pmv (alarmHandler s) = pmv s"
  "pmvBajoActive (alarmHandler s) = pmvBajoActive s"
  "alarmActive (alarmHandler s) = alarmActive s"
  "alarmSilenced (alarmHandler s) = alarmSilenced s"
  by (simp_all add: triggerAlarm_def stopAlarm_def checkAlarm_def alarmHandler_def Let_def
      setColor_def delay_def)

lemma pmvBajo_conserva:
  "sistemaBloqueado (triggerPmvBajo s) = sistemaBloqueado s"
  "sistemaBloqueado (stopPmvBajo s) = sistemaBloqueado s"
  "sistemaBloqueado (checkPmvBajo pmvVal s) = sistemaBloqueado s"
  "sistemaBloqueado (pmvBajoHandler s) = sistemaBloqueado s"
  "pmv (checkPmvBajo pmvVal s) = pmv s"
  "alarmActive (checkPmvBajo pmvVal s) = alarmActive s"
  "alarmSilenced (checkPmvBajo pmvVal s) = alarmSilenced s"
  "alarmSilenceUntil (checkPmvBajo pmvVal s) = alarmSilenceUntil s"
  "reloj (checkPmvBajo pmvVal s) = reloj s"
  "pmv (pmvBajoHandler s) = pmv s"
  "alarmActive (pmvBajoHandler s) = alarmActive s"
  "alarmSilenced (pmvBajoHandler s) = alarmSilenced s"
  "pmvBajoActive (pmvBajoHandler s) = pmvBajoActive s"
  by (simp_all add: triggerPmvBajo_def stopPmvBajo_def checkPmvBajo_def pmvBajoHandler_def
      Let_def setColor_def)

lemma atenderConfort_bloqueo: "sistemaBloqueado (atenderConfort k s) = sistemaBloqueado s"
  by (simp add: atenderConfort_def Let_def alarma_conserva pmvBajo_conserva
      setColor_conserva delay_def)

lemma loopConfort_bloqueo: "sistemaBloqueado (loopConfort e s) = sistemaBloqueado s"
  by (simp add: loopConfort_def Let_def atenderConfort_bloqueo alarma_conserva pmvBajo_conserva
      setActuador_conserva)

lemma delay_delay: "delay a (delay b s) = delay (b + a) s"
  by (simp add: delay_def add.assoc)

lemma esperarTag_reloj:
  "esperarTag ts s = Some (t, r, s') \<Longrightarrow> \<exists>d. s' = delay d s"
proof (induction ts arbitrary: s)
  case Nil
  then show ?case by simp
next
  case (Cons x xs)
  show ?case
  proof (cases "x = []")
    case True
    with Cons.prems have "esperarTag xs (delay 100 s) = Some (t, r, s')" by simp
    from Cons.IH [OF this] obtain d where "s' = delay d (delay 100 s)" ..
    then have "s' = delay (100 + d) s" by (simp add: delay_delay)
    then show ?thesis ..
  next
    case False
    with Cons.prems have "s' = delay 100 s" by simp
    then show ?thesis ..
  qed
qed

lemma registrarPorTag_conserva:
  assumes "registrarPorTag ks ts s = Some s'"
  shows "sistemaBloqueado s' = sistemaBloqueado s \<and> alarmActive s' = alarmActive s \<and>
     alarmSilenced s' = alarmSilenced s \<and> pmvBajoActive s' = pmvBajoActive s \<and> pmv s' = pmv s \<and>
     intentosFallidos s' = intentosFallidos s \<and> tiempoBloqueo s' = tiempoBloqueo s"
proof (cases "totalUsuarios s \<ge> 2")
  case True
  with assms show ?thesis by (auto simp add: registrarPorTag_def beep_reloj delay_def)
next
  case False
  with assms obtain tagL ts1 s1 nombreL ks1 claveL ks2 tagC ts2 s5 where
    a: "esperarTag ts s = Some (tagL, ts1, s1)"
    and b: "esperarTag ts1
        (delay 1000 (delay 2000 (beep 3
          ((delay 2000 (beep 2 s1))
             \<lparr>usuarios := (usuarios (delay 2000 (beep 2 s1)))
                [totalUsuarios (delay 2000 (beep 2 s1)) :=
                   \<lparr>nombre = nombreL, tag = tagL, clave = claveL\<rparr>],
              totalUsuarios := totalUsuarios (delay 2000 (beep 2 s1)) + 1\<rparr>)))) =
        Some (tagC, ts2, s5)"
    and c: "s' = (if tagC = tagL
          then (delay 1500 (beep 3 s5))
                 \<lparr>usuarioActivo := Some (totalUsuarios (delay 1500 (beep 3 s5)) - 1),
                  servoAnguloActual := 90, servoAnguloDeseado := 90, servo := 90,
                  ultimoCambioServo := millis (delay 1500 (beep 3 s5)), estado := CONFORT\<rparr>
          else (delay 2000 (beep 1 s5))\<lparr>estado := MENU\<rparr>)"
    by (auto simp add: registrarPorTag_def Let_def split: option.splits prod.splits if_splits)
  from esperarTag_reloj [OF a] obtain d1 where d1: "s1 = delay d1 s" ..
  from esperarTag_reloj [OF b] obtain d2 where d2: "s5 = delay d2
        (delay 1000 (delay 2000 (beep 3
          ((delay 2000 (beep 2 s1))
             \<lparr>usuarios := (usuarios (delay 2000 (beep 2 s1)))
                [totalUsuarios (delay 2000 (beep 2 s1)) :=
                   \<lparr>nombre = nombreL, tag = tagL, clave = claveL\<rparr>],
              totalUsuarios := totalUsuarios (delay 2000 (beep 2 s1)) + 1\<rparr>))))" ..
  show ?thesis
    unfolding c d2 d1 by (simp add: beep_reloj delay_def)
qed

lemma loopMenu_conserva:
  assumes "loopMenu e s = Some s'"
  shows "sistemaBloqueado s' = sistemaBloqueado s \<and> alarmActive s' = alarmActive s \<and>
     alarmSilenced s' = alarmSilenced s \<and> pmvBajoActive s' = pmvBajoActive s \<and> pmv s' = pmv s \<and>
     intentosFallidos s' = intentosFallidos s \<and> tiempoBloqueo s' = tiempoBloqueo s"
proof -
  obtain key ks where k: "getKey (teclas e) = (key, ks)" by (cases "getKey (teclas e)")
  consider "key = CHR ''1''" | "key \<noteq> CHR ''1''" "key = CHR ''2''"
    | "key \<noteq> CHR ''1''" "key \<noteq> CHR ''2''" by blast
  then show ?thesis
  proof cases
    case 1
    with assms k show ?thesis by (auto simp add: loopMenu_def)
  next
    case 2
    with assms k have "registrarPorTag ks (tarjetas e) s = Some s'"
      by (simp add: loopMenu_def)
    then show ?thesis by (rule registrarPorTag_conserva)
  next
    case 3
    with assms k show ?thesis by (auto simp add: loopMenu_def)
  qed
qed

lemma loopLogin_conserva:
  assumes "loopLogin e s = Some s'"
  shows "(sistemaBloqueado s \<longrightarrow> sistemaBloqueado s') \<and> alarmActive s' = alarmActive s \<and>
     alarmSilenced s' = alarmSilenced s \<and> pmvBajoActive s' = pmvBajoActive s \<and> pmv s' = pmv s"
  using assms
  by (auto simp add: loopLogin_def Let_def beep_reloj delay_def setColor_def bloqueoSistema_def
      millis_def split: prod.splits option.splits if_splits)

subsection \<open>Lockout lifecycle\<close>

lemma tres_fallos:
  assumes "estado s = LOGIN" and "\<not> sistemaBloqueado s" and "intentosFallidos s = 0"
    and e: "claveErronea e1 s" "claveErronea e2 s" "claveErronea e3 s"
    and m: "teclaMenu m1 = CHR ''1''" "teclaMenu m2 = CHR ''1''"
  shows "(\<exists>s2. ejecutar [e1, m1, e2] s = Some s2 \<and> \<not> sistemaBloqueado s2 \<and>
            intentosFallidos s2 = 2) \<and>
         (\<exists>s3. ejecutar [e1, m1, e2, m2, e3] s = Some s3 \<and> sistemaBloqueado s3 \<and>
            intentosFallidos s3 = 0 \<and> tiempoBloqueo s3 + 2500 = reloj s3 \<and> estado s3 = MENU \<and>
            usuarios s3 = usuarios s \<and> totalUsuarios s3 = totalUsuarios s)"
proof -
  from loop_login_fallo [OF assms(1,2) e(1)] assms(3) obtain a1 where
    a1: "loop e1 s = Some a1" "estado a1 = MENU" "usuarios a1 = usuarios s"
      "totalUsuarios a1 = totalUsuarios s" "\<not> sistemaBloqueado a1" "intentosFallidos a1 = 1"
    by auto
  define a2 where "a2 = a1\<lparr>estado := LOGIN\<rparr>"
  have a2: "loop m1 a1 = Some a2"
    unfolding a2_def using a1(2,5) m(1) by (rule loop_menu_login)
  have "claveErronea e2 a2"
    using e(2) a1(3,4) claveErronea_usuarios [of a2 s e2] by (simp add: a2_def)
  moreover have "estado a2 = LOGIN" "\<not> sistemaBloqueado a2" "intentosFallidos a2 = 1"
    using a1 by (simp_all add: a2_def)
  ultimately obtain a3 where
    a3: "loop e2 a2 = Some a3" "estado a3 = MENU" "usuarios a3 = usuarios a2"
      "totalUsuarios a3 = totalUsuarios a2" "\<not> sistemaBloqueado a3" "intentosFallidos a3 = 2"
    using loop_login_fallo [of a2 e2] by auto
  define a4 where "a4 = a3\<lparr>estado := LOGIN\<rparr>"
  have a4: "loop m2 a3 = Some a4"
    unfolding a4_def using a3(2,5) m(2) by (rule loop_menu_login)
  have "claveErronea e3 a4"
    using e(3) a1(3,4) a3(3,4) claveErronea_usuarios [of a4 s e3] by (simp add: a4_def a2_def)
  moreover have "estado a4 = LOGIN" "\<not> sistemaBloqueado a4" "intentosFallidos a4 = 2"
    using a3 by (simp_all add: a4_def)
  ultimately obtain a5 where
    a5: "loop e3 a4 = Some a5" "estado a5 = MENU" "sistemaBloqueado a5"
      "intentosFallidos a5 = 0" "tiempoBloqueo a5 + 2500 = reloj a5"
      "usuarios a5 = usuarios a4" "totalUsuarios a5 = totalUsuarios a4"
    using loop_login_fallo [of a4 e3] by auto
  have "ejecutar [e1, m1, e2] s = Some a3"
    by (simp add: a1(1) a2 a3(1))
  moreover have "ejecutar [e1, m1, e2, m2, e3] s = Some a5"
    by (simp add: a1(1) a2 a3(1) a4 a5(1))
  moreover have "usuarios a5 = usuarios s" "totalUsuarios a5 = totalUsuarios s"
    using a5(6,7) a3(3,4) a1(3,4) by (simp_all add: a4_def a2_def)
  ultimately show ?thesis using a3(5,6) a5(2-5) by simp
qed

lemma desbloqueo_exacto:
  assumes "sistemaBloqueado u"
  shows "sistemaBloqueado (verificarDesbloqueo u) = (reloj u - tiempoBloqueo u < DURACION_BLOQUEO)"
    and "DURACION_BLOQUEO \<le> reloj u - tiempoBloqueo u \<Longrightarrow>
           estado (verificarDesbloqueo u) = MENU \<and> usuarioActivo (verificarDesbloqueo u) = None"
    and "loop e u = Some u' \<Longrightarrow>
           sistemaBloqueado u' = (reloj u - tiempoBloqueo u < DURACION_BLOQUEO)"
proof -
  show v: "sistemaBloqueado (verificarDesbloqueo u) = (reloj u - tiempoBloqueo u < DURACION_BLOQUEO)"
  proof (cases "reloj u - tiempoBloqueo u < DURACION_BLOQUEO")
    case True
    then show ?thesis using assms by (simp add: verificarDesbloqueo_sigue)
  next
    case False
    then show ?thesis using assms by (simp add: verificarDesbloqueo_vence not_less)
  qed
  show w: "estado (verificarDesbloqueo u) = MENU \<and> usuarioActivo (verificarDesbloqueo u) = None"
    if "DURACION_BLOQUEO \<le> reloj u - tiempoBloqueo u"
    using that assms by (simp add: verificarDesbloqueo_vence)
  show "sistemaBloqueado u' = (reloj u - tiempoBloqueo u < DURACION_BLOQUEO)"
    if l: "loop e u = Some u'"
  proof (cases "reloj u - tiempoBloqueo u < DURACION_BLOQUEO")
    case True
    then have b: "sistemaBloqueado (verificarDesbloqueo u)" using v by simp
    have "sistemaBloqueado u'"
    proof (cases "estado (verificarDesbloqueo u)")
      case MENU
      with l have "loopMenu e (verificarDesbloqueo u) = Some u'" by (simp add: loop_def)
      from loopMenu_conserva [OF this] b show ?thesis by simp
    next
      case LOGIN
      with l have "loopLogin e (verificarDesbloqueo u) = Some u'" by (simp add: loop_def)
      from loopLogin_conserva [OF this] b show ?thesis by simp
    next
      case CONFORT
      with l have "u' = loopConfort e (verificarDesbloqueo u)" by (simp add: loop_def)
      with b show ?thesis by (simp add: loopConfort_bloqueo)
    qed
    with True show ?thesis by simp
  next
    case False
    then have d: "DURACION_BLOQUEO \<le> reloj u - tiempoBloqueo u" by (simp add: not_less)
    from v False have b: "\<not> sistemaBloqueado (verificarDesbloqueo u)" by simp
    from w [OF d] l have "loopMenu e (verificarDesbloqueo u) = Some u'" by (simp add: loop_def)
    from loopMenu_conserva [OF this] b False show ?thesis by simp
  qed
qed

lemma ejemplo_clave_erronea:
  "claveErronea (sinEntrada\<lparr>teclas := ''1111#'', tarjetas := [''5CF8D773'']\<rparr>)
     ((setup_ino globales)\<lparr>estado := LOGIN\<rparr>)"
  by (simp add: claveErronea_def sinEntrada_def leerTag_def setup_ino_def globales_def
      delay_def setColor_def NO_KEY_def)

lemma estado_setActuador_sesion: "estado (setActuador pmvVal s) = estado s"
  by (cases "nuevoEstado pmvVal (estadoPMVActual s)";
      simp add: setActuador_def Let_def actualizarServo_def setColor_def)+

subsection \<open>Alert machines\<close>

lemma checkAlarm_activa:
  assumes "alarmActive s \<longrightarrow> \<not> alarmSilenced s"
  shows "alarmActive (checkAlarm v s) \<longrightarrow>
     v > PMV_ALARM_THRESHOLD \<and> \<not> alarmSilenced (checkAlarm v s)"
  using assms
  by (simp add: checkAlarm_def Let_def triggerAlarm_def stopAlarm_def setColor_def delay_def)

lemma checkPmvBajo_activa: "pmvBajoActive (checkPmvBajo v s) = (v < PMV_BAJO_THRESHOLD)"
  by (simp add: checkPmvBajo_def triggerPmvBajo_def stopPmvBajo_def setColor_def)

lemma atenderConfort_alertas:
  "pmv (atenderConfort k s) = pmv s"
  "alarmActive (atenderConfort k s) \<longrightarrow>
     alarmActive s \<and> (alarmSilenced (atenderConfort k s) \<longrightarrow> alarmSilenced s)"
  "pmvBajoActive (atenderConfort k s) \<longrightarrow> pmvBajoActive s"
  by (simp_all add: atenderConfort_def Let_def alarma_conserva pmvBajo_conserva
      stopAlarm_def stopPmvBajo_def setColor_def delay_def)

lemma loopConfort_alertas:
  assumes "alarmActive s \<longrightarrow> \<not> alarmSilenced s"
  shows "(alarmActive (loopConfort e s) \<longrightarrow>
            \<not> alarmSilenced (loopConfort e s) \<and> pmv (loopConfort e s) > PMV_ALARM_THRESHOLD) \<and>
         (pmvBajoActive (loopConfort e s) \<longrightarrow> pmv (loopConfort e s) < PMV_BAJO_THRESHOLD)"
proof -
  obtain p where p: "loopConfort e s =
      atenderConfort (fst (getKey (teclas e)))
        (checkPmvBajo p (checkAlarm p (setActuador p (s\<lparr>pmv := p\<rparr>))))"
    by (simp add: loopConfort_def Let_def)
  define sa where "sa = setActuador p (s\<lparr>pmv := p\<rparr>)"
  define sb where "sb = checkAlarm p sa"
  define s2 where "s2 = checkPmvBajo p sb"
  have "alarmActive sa \<longrightarrow> \<not> alarmSilenced sa"
    using assms by (simp add: sa_def setActuador_conserva)
  from checkAlarm_activa [OF this, of p]
  have b: "alarmActive sb \<longrightarrow> p > PMV_ALARM_THRESHOLD \<and> \<not> alarmSilenced sb"
    by (simp add: sb_def)
  have c: "alarmActive s2 = alarmActive sb" "alarmSilenced s2 = alarmSilenced sb"
    "pmvBajoActive s2 = (p < PMV_BAJO_THRESHOLD)" "pmv s2 = p"
    by (simp_all add: s2_def sb_def sa_def pmvBajo_conserva alarma_conserva setActuador_conserva
        checkPmvBajo_activa)
  have l: "loopConfort e s = atenderConfort (fst (getKey (teclas e))) s2"
    by (simp add: p s2_def sb_def sa_def)
  show ?thesis
    unfolding l
    using atenderConfort_alertas [of "fst (getKey (teclas e))" s2] b c
    by auto
qed

lemma verificarDesbloqueo_alertas:
  "alarmActive (verificarDesbloqueo s) = alarmActive s"
  "alarmSilenced (verificarDesbloqueo s) = alarmSilenced s"
  "pmvBajoActive (verificarDesbloqueo s) = pmvBajoActive s"
  "pmv (verificarDesbloqueo s) = pmv s"
  by (simp_all add: verificarDesbloqueo_def Let_def beep_reloj setColor_def delay_def)

lemma invariante_alertas:
  "alcanzable s \<Longrightarrow>
     (alarmActive s \<longrightarrow> \<not> alarmSilenced s \<and> pmv s > PMV_ALARM_THRESHOLD) \<and>
     (pmvBajoActive s \<longrightarrow> pmv s < PMV_BAJO_THRESHOLD)"
proof (induction rule: alcanzable.induct)
  case arranque
  show ?case by (simp add: setup_ino_def globales_def delay_def setColor_def)
next
  case (espera s d)
  then show ?case by (simp add: delay_def)
next
  case (iteracion s e s')
  let ?v = "verificarDesbloqueo s"
  have v: "(alarmActive ?v \<longrightarrow> \<not> alarmSilenced ?v \<and> pmv ?v > PMV_ALARM_THRESHOLD) \<and>
     (pmvBajoActive ?v \<longrightarrow> pmv ?v < PMV_BAJO_THRESHOLD)"
    using iteracion.IH by (simp add: verificarDesbloqueo_alertas)
  show ?case
  proof (cases "estado ?v")
    case MENU
    with iteracion.hyps(2) have "loopMenu e ?v = Some s'" by (simp add: loop_def)
    from loopMenu_conserva [OF this] v show ?thesis by simp
  next
    case LOGIN
    with iteracion.hyps(2) have "loopLogin e ?v = Some s'" by (simp add: loop_def)
    from loopLogin_conserva [OF this] v show ?thesis by simp
  next
    case CONFORT
    with iteracion.hyps(2) have "s' = loopConfort e ?v" by (simp add: loop_def)
    moreover have "alarmActive ?v \<longrightarrow> \<not> alarmSilenced ?v" using v by simp
    ultimately show ?thesis using loopConfort_alertas [of ?v e] by simp
  qed
qed

text \<open>
  Claim C10 (alert mutual exclusion). In every state the sketch reaches between two
  iterations of \<open>loop\<close>, so at the end of every tick in \<open>CONFORT\<close> mode, an active alarm
  means that the index stored by the last such tick is above 0.7 and an active low
  indicator means that it is below -0.7; the two are never active together.
\<close>

theorem C10_exclusion_de_alertas:
  "alcanzable s \<Longrightarrow>
     (alarmActive s \<longrightarrow> pmv s > PMV_ALARM_THRESHOLD) \<and>
     (pmvBajoActive s \<longrightarrow> pmv s < PMV_BAJO_THRESHOLD) \<and>
     \<not> (alarmActive s \<and> pmvBajoActive s)"
  using invariante_alertas [of s]
  by (auto simp add: PMV_ALARM_THRESHOLD_def PMV_BAJO_THRESHOLD_def)

lemma ejecutar_alcanzable:
  "alcanzable s \<Longrightarrow> ejecutar es s = Some s' \<Longrightarrow> alcanzable s'"
proof (induction es arbitrary: s)
  case Nil
  then show ?case by simp
next
  case (Cons e es)
  from Cons.prems(2) obtain t where t: "loop e s = Some t" "ejecutar es t = Some s'"
    by (auto split: option.splits)
  from Cons.prems(1) t(1) have "alcanzable t" by (rule alcanzable.iteracion)
  then show ?case using t(2) by (rule Cons.IH)
qed

lemma ejemplo_menu_login:
  "loop (sinEntrada\<lparr>teclas := ''1''\<rparr>) (setup_ino globales) =
     Some ((setup_ino globales)\<lparr>estado := LOGIN\<rparr>)"
  by (rule loop_menu_login)
     (simp_all add: setup_ino_def globales_def delay_def setColor_def teclaMenu_def getKey_def
        sinEntrada_def)

lemma ejemplo_login:
  "\<exists>s'. loop (sinEntrada\<lparr>teclas := ''3456#'', tarjetas := [''5CF8D773'']\<rparr>)
       ((setup_ino globales)\<lparr>estado := LOGIN\<rparr>) = Some s' \<and>
     estado s' = CONFORT \<and> \<not> sistemaBloqueado s' \<and> \<not> alarmActive s' \<and> \<not> alarmSilenced s' \<and>
     estadoPMVActual s' = PMV_CONFORT \<and> reloj s' = 5250"
  by (simp add: loop_def loopLogin_def verificarDesbloqueo_def leerTag_def sinEntrada_def
      setup_ino_def globales_def delay_def setColor_def beep_reloj NO_KEY_def millis_def Let_def)

lemma ejemplo_calor:
  assumes "estado s = CONFORT" "\<not> sistemaBloqueado s" "\<not> alarmActive s" "\<not> alarmSilenced s"
  shows "\<exists>s'. loop (sinEntrada\<lparr>tempDHT := Some 30, humDHT := Some 50, valorTemp := 573,
            valorLuz := 300\<rparr>) s = Some s' \<and>
          estado s' = CONFORT \<and> alarmActive s' \<and> \<not> alarmSilenced s' \<and> \<not> pmvBajoActive s' \<and>
          \<not> sistemaBloqueado s' \<and> reloj s' = reloj s + 200 \<and>
          pmv s' = calcularPMV 30 (leerTempAnalogica 573) 50 300"
proof -
  let ?e = "sinEntrada\<lparr>tempDHT := Some 30, humDHT := Some 50, valorTemp := 573, valorLuz := 300\<rparr>"
  define p where "p = calcularPMV 30 (leerTempAnalogica 573) 50 300"
  have pv: "p > PMV_ALARM_THRESHOLD" "\<not> p < PMV_BAJO_THRESHOLD"
    by (simp_all add: p_def calcularPMV_def tProm_def factorHumedad_def factorLuz_def
        constrain_def leerTempAnalogica_def Let_def PMV_ALARM_THRESHOLD_def PMV_BAJO_THRESHOLD_def)
  define s2 where "s2 = checkPmvBajo p (checkAlarm p (setActuador p (s\<lparr>pmv := p\<rparr>)))"
  have l: "loop ?e s = Some (atenderConfort NO_KEY s2)"
    using assms
    by (simp add: loop_def verificarDesbloqueo_libre loopConfort_def Let_def sinEntrada_def
        getKey_def s2_def p_def)
  have a: "alarmActive s2" "\<not> alarmSilenced s2" "\<not> pmvBajoActive s2" "pmv s2 = p"
    "estado s2 = estado s" "sistemaBloqueado s2 = sistemaBloqueado s"
    "reloj s2 = reloj s" "lastAlarmToggle s2 = reloj s"
    using assms pv
    by (simp_all add: s2_def checkPmvBajo_activa pmvBajo_conserva alarma_conserva
        setActuador_conserva checkAlarm_def triggerAlarm_def setColor_def Let_def
        checkPmvBajo_def stopPmvBajo_def estado_setActuador_sesion millis_def)
  show ?thesis
    unfolding l using a assms
    by (simp add: atenderConfort_def Let_def NO_KEY_def alarmHandler_def setColor_def delay_def
        p_def millis_def alarmInterval_def)
qed

theorem C10_exclusion_de_alertas_witness:
  "\<exists>s'. ejecutar
       [sinEntrada\<lparr>teclas := ''1''\<rparr>,
        sinEntrada\<lparr>teclas := ''3456#'', tarjetas := [''5CF8D773'']\<rparr>,
        sinEntrada\<lparr>tempDHT := Some 30, humDHT := Some 50, valorTemp := 573, valorLuz := 300\<rparr>]
       (setup_ino globales) = Some s' \<and>
     alarmActive s' \<and> pmv s' > PMV_ALARM_THRESHOLD \<and> \<not> pmvBajoActive s'"
proof -
  from ejemplo_login obtain s1 where
    s1: "loop (sinEntrada\<lparr>teclas := ''3456#'', tarjetas := [''5CF8D773'']\<rparr>)
           ((setup_ino globales)\<lparr>estado := LOGIN\<rparr>) = Some s1"
      "estado s1 = CONFORT" "\<not> sistemaBloqueado s1" "\<not> alarmActive s1" "\<not> alarmSilenced s1"
    by blast
  from ejemplo_calor [OF s1(2-5)] obtain s2 where
    s2: "loop (sinEntrada\<lparr>tempDHT := Some 30, humDHT := Some 50, valorTemp := 573,
            valorLuz := 300\<rparr>) s1 = Some s2" "alarmActive s2"
    by blast
  have r: "ejecutar
       [sinEntrada\<lparr>teclas := ''1''\<rparr>,
        sinEntrada\<lparr>teclas := ''3456#'', tarjetas := [''5CF8D773'']\<rparr>,
        sinEntrada\<lparr>tempDHT := Some 30, humDHT := Some 50, valorTemp := 573, valorLuz := 300\<rparr>]
       (setup_ino globales) = Some s2"
    by (simp add: ejemplo_menu_login s1(1) s2(1))
  have "alcanzable s2"
    using alcanzable.arranque r by (rule ejecutar_alcanzable)
  from C10_exclusion_de_alertas [OF this] s2(2) r show ?thesis by simp
qed

subsection \<open>The session machine during a lockout\<close>

lemma loop_menu_bloqueado:
  assumes "estado s = MENU" and "sistemaBloqueado s"
    and "reloj s - tiempoBloqueo s < DURACION_BLOQUEO" and "teclaMenu e = CHR ''1''"
  shows "\<exists>s'. loop e s = Some s' \<and> estado s' = LOGIN \<and> sistemaBloqueado s' \<and>
           tiempoBloqueo s' = tiempoBloqueo s \<and> reloj s' = reloj s \<and>
           usuarios s' = usuarios s \<and> totalUsuarios s' = totalUsuarios s"
proof -
  from verificarDesbloqueo_sigue [OF assms(2,3)] obtain c where
    v: "verificarDesbloqueo s = s\<lparr>color := c\<rparr>" by blast
  have "loop e s = Some (s\<lparr>color := c, estado := LOGIN\<rparr>)"
    using assms(1,4) by (simp add: loop_def v loopMenu_login)
  then show ?thesis using assms(2) by simp
qed

lemma claveCorrecta_datos:
  "claveCorrecta e s \<Longrightarrow>
     \<exists>tagL ts i claveL ks.
       leerTag (tarjetas e) = (tagL, ts) \<and> tagL \<noteq> [] \<and>
       find (\<lambda>i. tag (usuarios s ! i) = tagL) [0..<totalUsuarios s] = Some i \<and>
       leerClave [] (teclas e) = Some (claveL, ks) \<and> claveL = clave (usuarios s ! i)"
  by (auto simp add: claveCorrecta_def split: prod.splits option.splits)

lemma claveCorrecta_usuarios:
  "usuarios s' = usuarios s \<Longrightarrow> totalUsuarios s' = totalUsuarios s \<Longrightarrow>
     claveCorrecta e s' = claveCorrecta e s"
  by (simp add: claveCorrecta_def cong: prod.case_cong option.case_cong)

lemma loopLogin_acceso:
  assumes "claveCorrecta e s"
  shows "\<exists>s'. loopLogin e s = Some s' \<and> estado s' = CONFORT \<and> usuarioActivo s' \<noteq> None \<and>
           sistemaBloqueado s' = sistemaBloqueado s \<and> tiempoBloqueo s' = tiempoBloqueo s \<and>
           reloj s' = reloj s + 3750"
proof -
  from claveCorrecta_datos [OF assms] obtain tagL ts i claveL ks where
    d: "leerTag (tarjetas e) = (tagL, ts)" "tagL \<noteq> []"
       "find (\<lambda>i. tag (usuarios s ! i) = tagL) [0..<totalUsuarios s] = Some i"
       "leerClave [] (teclas e) = Some (claveL, ks)" "claveL = clave (usuarios s ! i)"
    by blast
  have u: "usuarios (delay 1000 (beep 2 (s\<lparr>usuarioActivo := Some i\<rparr>))) = usuarios s"
    by (simp add: beep_reloj delay_def)
  show ?thesis
    unfolding loopLogin_def Let_def using d u
    by (simp add: beep_reloj delay_def setColor_def millis_def)
qed

lemma loop_login_bloqueado:
  assumes "estado s = LOGIN" and "sistemaBloqueado s"
    and "reloj s - tiempoBloqueo s < DURACION_BLOQUEO" and "claveCorrecta e s"
  shows "\<exists>s'. loop e s = Some s' \<and> estado s' = CONFORT \<and> usuarioActivo s' \<noteq> None \<and>
           sistemaBloqueado s' \<and> reloj s' - tiempoBloqueo s' = reloj s - tiempoBloqueo s + 3750"
proof -
  from verificarDesbloqueo_sigue [OF assms(2,3)] obtain c where
    v: "verificarDesbloqueo s = s\<lparr>color := c\<rparr>" by blast
  have "claveCorrecta e (s\<lparr>color := c\<rparr>)"
    using assms(4) claveCorrecta_usuarios [of "s\<lparr>color := c\<rparr>" s e] by simp
  from loopLogin_acceso [OF this] obtain s' where
    s': "loopLogin e (s\<lparr>color := c\<rparr>) = Some s'" "estado s' = CONFORT" "usuarioActivo s' \<noteq> None"
      "sistemaBloqueado s' = sistemaBloqueado s" "tiempoBloqueo s' = tiempoBloqueo s"
      "reloj s' = reloj s + 3750"
    by auto
  have "loop e s = Some s'"
    using assms(1) s'(1) by (simp add: loop_def v)
  then show ?thesis using s'(2-6) assms(2) by simp
qed

text \<open>
  Claim C3 (lockout preemption) fails on the code: \<open>loop\<close> calls \<open>verificarDesbloqueo\<close>
  and then runs the \<open>switch\<close> on \<open>estado\<close> whatever \<open>sistemaBloqueado\<close> holds. From
  power-on, three wrong PINs lock the system; the key \<open>1\<close> then opens the login and
  the right PIN enters \<open>CONFORT\<close>, 6250 ms after the lock began and with the lock still
  set.
\<close>

theorem C3_bloqueo_no_detiene_la_sesion:
  "\<exists>s'. ejecutar
       [sinEntrada\<lparr>teclas := ''1''\<rparr>,
        sinEntrada\<lparr>teclas := ''1111#'', tarjetas := [''5CF8D773'']\<rparr>,
        sinEntrada\<lparr>teclas := ''1''\<rparr>,
        sinEntrada\<lparr>teclas := ''1111#'', tarjetas := [''5CF8D773'']\<rparr>,
        sinEntrada\<lparr>teclas := ''1''\<rparr>,
        sinEntrada\<lparr>teclas := ''1111#'', tarjetas := [''5CF8D773'']\<rparr>,
        sinEntrada\<lparr>teclas := ''1''\<rparr>,
        sinEntrada\<lparr>teclas := ''3456#'', tarjetas := [''5CF8D773'']\<rparr>]
       (setup_ino globales) = Some s' \<and>
     sistemaBloqueado s' \<and> reloj s' - tiempoBloqueo s' = 6250 \<and>
     estado s' = CONFORT \<and> usuarioActivo s' \<noteq> None"
proof -
  let ?m = "sinEntrada\<lparr>teclas := ''1''\<rparr>"
  let ?f = "sinEntrada\<lparr>teclas := ''1111#'', tarjetas := [''5CF8D773'']\<rparr>"
  let ?ok = "sinEntrada\<lparr>teclas := ''3456#'', tarjetas := [''5CF8D773'']\<rparr>"
  let ?l = "(setup_ino globales)\<lparr>estado := LOGIN\<rparr>"
  have m: "teclaMenu ?m = CHR ''1''"
    by (simp add: teclaMenu_def getKey_def)
  have a: "estado ?l = LOGIN" "\<not> sistemaBloqueado ?l" "intentosFallidos ?l = 0"
    by (simp_all add: setup_ino_def globales_def delay_def setColor_def)
  from tres_fallos [OF a ejemplo_clave_erronea ejemplo_clave_erronea ejemplo_clave_erronea m m]
  obtain s3 where
    s3: "ejecutar [?f, ?m, ?f, ?m, ?f] ?l = Some s3" "sistemaBloqueado s3"
      "tiempoBloqueo s3 + 2500 = reloj s3" "estado s3 = MENU"
      "usuarios s3 = usuarios ?l" "totalUsuarios s3 = totalUsuarios ?l"
    by blast
  have t3: "reloj s3 - tiempoBloqueo s3 = 2500"
    using s3(3) [symmetric] by simp
  then have "reloj s3 - tiempoBloqueo s3 < DURACION_BLOQUEO"
    by (simp add: DURACION_BLOQUEO_def)
  from loop_menu_bloqueado [OF s3(4) s3(2) this m] obtain s4 where
    s4: "loop ?m s3 = Some s4" "estado s4 = LOGIN" "sistemaBloqueado s4"
      "tiempoBloqueo s4 = tiempoBloqueo s3" "reloj s4 = reloj s3"
      "usuarios s4 = usuarios s3" "totalUsuarios s4 = totalUsuarios s3"
    by blast
  have t4: "reloj s4 - tiempoBloqueo s4 = 2500"
    using t3 s4(4,5) by simp
  then have b: "reloj s4 - tiempoBloqueo s4 < DURACION_BLOQUEO"
    by (simp add: DURACION_BLOQUEO_def)
  have "claveCorrecta ?ok ?l"
    by (simp add: claveCorrecta_def sinEntrada_def leerTag_def setup_ino_def globales_def
        delay_def setColor_def NO_KEY_def)
  then have "claveCorrecta ?ok s4"
    using claveCorrecta_usuarios [of s4 ?l ?ok] s4(6,7) s3(5,6) by simp
  from loop_login_bloqueado [OF s4(2,3) b this] obtain s5 where
    s5: "loop ?ok s4 = Some s5" "estado s5 = CONFORT" "usuarioActivo s5 \<noteq> None"
      "sistemaBloqueado s5" "reloj s5 - tiempoBloqueo s5 = reloj s4 - tiempoBloqueo s4 + 3750"
    by blast
  have e: "ejecutar (?f # ?m # ?f # ?m # ?f # es) ?l = ejecutar es s3" for es
    using s3(1) by (auto split: option.splits)
  have "ejecutar [?m, ?f, ?m, ?f, ?m, ?f, ?m, ?ok] (setup_ino globales) = Some s5"
    using e [of "[?m, ?ok]"] by (simp add: ejemplo_menu_login s4(1) s5(1))
  then show ?thesis using s5(2-5) t4 by simp
qed

subsection \<open>The silence window\<close>

lemma checkAlarm_silenciada:
  "alarmSilenced s \<Longrightarrow> reloj s < alarmSilenceUntil s \<Longrightarrow> checkAlarm v s = s"
  by (simp add: checkAlarm_def millis_def)

lemma checkAlarm_sigue_activa:
  "alarmActive s \<Longrightarrow> \<not> alarmSilenced s \<Longrightarrow> v > PMV_ALARM_THRESHOLD \<Longrightarrow>
     checkAlarm v s = s\<lparr>alarmSilenced := False\<rparr>"
  by (simp add: checkAlarm_def Let_def)

lemma silencio_sin_desborde:
  assumes "\<not> alarmActive s" and "alarmSilenced s" and "reloj s < alarmSilenceUntil s"
  shows "\<not> alarmActive (loopConfort e s) \<and> alarmSilenced (loopConfort e s) \<and>
     alarmSilenceUntil (loopConfort e s) = alarmSilenceUntil s"
proof -
  obtain p where p: "loopConfort e s =
      atenderConfort (fst (getKey (teclas e)))
        (checkPmvBajo p (checkAlarm p (setActuador p (s\<lparr>pmv := p\<rparr>))))"
    by (simp add: loopConfort_def Let_def)
  define sa where "sa = setActuador p (s\<lparr>pmv := p\<rparr>)"
  have a: "\<not> alarmActive sa" "alarmSilenced sa" "reloj sa < alarmSilenceUntil sa"
    "alarmSilenceUntil sa = alarmSilenceUntil s"
    using assms by (simp_all add: sa_def setActuador_conserva)
  have b: "checkAlarm p sa = sa"
    using a(2,3) by (rule checkAlarm_silenciada)
  define s2 where "s2 = checkPmvBajo p sa"
  have c: "\<not> alarmActive s2" "alarmSilenced s2" "alarmSilenceUntil s2 = alarmSilenceUntil s"
    using a by (simp_all add: s2_def pmvBajo_conserva)
  have l: "loopConfort e s = atenderConfort (fst (getKey (teclas e))) s2"
    by (simp add: p s2_def sa_def [symmetric] b)
  show ?thesis
    unfolding l using c
    by (simp add: atenderConfort_def Let_def pmvBajo_conserva pmvBajoHandler_def stopPmvBajo_def
        setColor_def delay_def)
qed

lemma tick_asterisco:
  assumes "estado s = CONFORT" and "\<not> sistemaBloqueado s" and "alarmActive s"
    and "\<not> alarmSilenced s"
  shows "\<exists>s'. loop (sinEntrada\<lparr>teclas := ''*'', tempDHT := Some 30, humDHT := Some 50,
            valorTemp := 573, valorLuz := 300\<rparr>) s = Some s' \<and>
          estado s' = CONFORT \<and> \<not> sistemaBloqueado s' \<and> \<not> alarmActive s' \<and>
          alarmSilenceUntil s' = reloj s + 800 + 60000 \<and>
          alarmSilenced s' = (\<not> reloj s + 800 > reloj s + 800 + 60000) \<and>
          reloj s' = reloj s + 1000"
proof -
  let ?e = "sinEntrada\<lparr>teclas := ''*'', tempDHT := Some 30, humDHT := Some 50,
      valorTemp := 573, valorLuz := 300\<rparr>"
  define p where "p = calcularPMV 30 (leerTempAnalogica 573) 50 300"
  have pv: "p > PMV_ALARM_THRESHOLD" "\<not> p < PMV_BAJO_THRESHOLD"
    by (simp_all add: p_def calcularPMV_def tProm_def factorHumedad_def factorLuz_def
        constrain_def leerTempAnalogica_def Let_def PMV_ALARM_THRESHOLD_def PMV_BAJO_THRESHOLD_def)
  define sa where "sa = setActuador p (s\<lparr>pmv := p\<rparr>)"
  have a: "alarmActive sa" "\<not> alarmSilenced sa" "reloj sa = reloj s" "estado sa = estado s"
    "sistemaBloqueado sa = sistemaBloqueado s"
    using assms by (simp_all add: sa_def setActuador_conserva estado_setActuador_sesion)
  have b: "checkAlarm p sa = sa\<lparr>alarmSilenced := False\<rparr>"
    using a(1,2) pv(1) by (rule checkAlarm_sigue_activa)
  define s2 where "s2 = checkPmvBajo p (sa\<lparr>alarmSilenced := False\<rparr>)"
  have c: "alarmActive s2" "\<not> alarmSilenced s2" "reloj s2 = reloj s" "estado s2 = CONFORT"
    "\<not> sistemaBloqueado s2"
    using a assms pv
    by (simp_all add: s2_def checkPmvBajo_def stopPmvBajo_def)
  have "loop ?e s = Some (atenderConfort (CHR ''*'') (checkPmvBajo p (checkAlarm p sa)))"
    using assms
    by (simp add: loop_def verificarDesbloqueo_libre loopConfort_def Let_def sinEntrada_def
        getKey_def p_def sa_def)
  then have l: "loop ?e s = Some (atenderConfort (CHR ''*'') s2)"
    by (simp add: b s2_def)
  define s3 where "s3 = alarmHandler s2"
  have d: "reloj s3 = reloj s" "estado s3 = CONFORT" "\<not> sistemaBloqueado s3"
    using c by (simp_all add: s3_def alarmHandler_def Let_def setColor_def)
  have "atenderConfort (CHR ''*'') s2 =
      delay 200
        (if reloj s + 800 > reloj s + 800 + 60000
         then (stopAlarm s3)\<lparr>alarmSilenced := False, alarmSilenceUntil := reloj s + 800 + 60000\<rparr>
         else (stopAlarm s3)\<lparr>alarmSilenced := True, alarmSilenceUntil := reloj s + 800 + 60000\<rparr>)"
    using c(1) d(1)
    by (simp add: atenderConfort_def Let_def s3_def [symmetric] millis_def stopAlarm_def
        setColor_def delay_def)
  then show ?thesis
    unfolding l using d
    by (simp add: stopAlarm_def setColor_def delay_def)
qed

text \<open>
  Claim C4 (alarm silence window) fails on the code where the 32-bit counter wraps
  within the 60 s. The alarm is active; the key \<open>*\<close> arrives when \<open>millis()\<close> is
  30000 ms before the wrap. \<open>stopAlarm\<close> ends at tick 4294938096 and
  \<open>alarmSilenceUntil\<close> becomes that tick plus 60000, which wraps to 30800. The test
  \<open>millis() > alarmSilenceUntil\<close> of the same iteration clears \<open>alarmSilenced\<close> at once,
  and the next iteration, 400 ms after the dismissal and with the index still above
  0.7, activates the alarm again.
\<close>

theorem C4_silencio_roto_por_desborde:
  "\<exists>s1 s2 s3.
     ejecutar
       [sinEntrada\<lparr>teclas := ''1''\<rparr>,
        sinEntrada\<lparr>teclas := ''3456#'', tarjetas := [''5CF8D773'']\<rparr>,
        sinEntrada\<lparr>tempDHT := Some 30, humDHT := Some 50, valorTemp := 573, valorLuz := 300\<rparr>]
       (setup_ino globales) = Some s1 \<and>
     alarmActive s1 \<and> reloj (delay 4294931846 s1) = 4294937296 \<and>
     loop (sinEntrada\<lparr>teclas := ''*'', tempDHT := Some 30, humDHT := Some 50,
             valorTemp := 573, valorLuz := 300\<rparr>) (delay 4294931846 s1) = Some s2 \<and>
     \<not> alarmActive s2 \<and> alarmSilenceUntil s2 = 4294938096 + 60000 \<and>
     alarmSilenceUntil s2 = 30800 \<and> \<not> alarmSilenced s2 \<and>
     loop (sinEntrada\<lparr>tempDHT := Some 30, humDHT := Some 50, valorTemp := 573,
             valorLuz := 300\<rparr>) s2 = Some s3 \<and>
     alarmActive s3 \<and> pmv s3 > PMV_ALARM_THRESHOLD \<and> reloj s3 - 4294938096 = 400"
proof -
  from ejemplo_login obtain t1 where
    t1: "loop (sinEntrada\<lparr>teclas := ''3456#'', tarjetas := [''5CF8D773'']\<rparr>)
           ((setup_ino globales)\<lparr>estado := LOGIN\<rparr>) = Some t1"
      "estado t1 = CONFORT" "\<not> sistemaBloqueado t1" "\<not> alarmActive t1" "\<not> alarmSilenced t1"
      "reloj t1 = 5250"
    by blast
  from ejemplo_calor [OF t1(2-5)] obtain s1 where
    s1: "loop (sinEntrada\<lparr>tempDHT := Some 30, humDHT := Some 50, valorTemp := 573,
            valorLuz := 300\<rparr>) t1 = Some s1" "estado s1 = CONFORT" "alarmActive s1"
      "\<not> alarmSilenced s1" "\<not> sistemaBloqueado s1" "reloj s1 = reloj t1 + 200"
    by blast
  have r: "ejecutar
       [sinEntrada\<lparr>teclas := ''1''\<rparr>,
        sinEntrada\<lparr>teclas := ''3456#'', tarjetas := [''5CF8D773'']\<rparr>,
        sinEntrada\<lparr>tempDHT := Some 30, humDHT := Some 50, valorTemp := 573, valorLuz := 300\<rparr>]
       (setup_ino globales) = Some s1"
    by (simp add: ejemplo_menu_login t1(1) s1(1))
  let ?w = "delay 4294931846 s1"
  have w: "estado ?w = CONFORT" "\<not> sistemaBloqueado ?w" "alarmActive ?w" "\<not> alarmSilenced ?w"
    "reloj ?w = 4294937296"
    using s1 t1(6) by (simp_all add: delay_def)
  from tick_asterisco [OF w(1-4)] obtain s2 where
    s2: "loop (sinEntrada\<lparr>teclas := ''*'', tempDHT := Some 30, humDHT := Some 50,
            valorTemp := 573, valorLuz := 300\<rparr>) ?w = Some s2"
      "estado s2 = CONFORT" "\<not> sistemaBloqueado s2" "\<not> alarmActive s2"
      "alarmSilenceUntil s2 = reloj ?w + 800 + 60000"
      "alarmSilenced s2 = (\<not> reloj ?w + 800 > reloj ?w + 800 + 60000)"
      "reloj s2 = reloj ?w + 1000"
    by blast
  have n: "\<not> alarmSilenced s2" "alarmSilenceUntil s2 = 30800" "reloj s2 = 4294938296"
    using s2(5-7) by (simp_all add: w(5))
  from ejemplo_calor [OF s2(2,3,4) n(1)] obtain s3 where
    s3: "loop (sinEntrada\<lparr>tempDHT := Some 30, humDHT := Some 50, valorTemp := 573,
            valorLuz := 300\<rparr>) s2 = Some s3" "alarmActive s3" "reloj s3 = reloj s2 + 200"
      "pmv s3 = calcularPMV 30 (leerTempAnalogica 573) 50 300"
    by blast
  have "pmv s3 > PMV_ALARM_THRESHOLD"
    unfolding s3(4)
    by (simp add: calcularPMV_def tProm_def factorHumedad_def factorLuz_def
        constrain_def leerTempAnalogica_def Let_def PMV_ALARM_THRESHOLD_def)
  moreover have "reloj s3 - 4294938096 = 400"
    by (simp add: s3(3) n(3))
  ultimately show ?thesis
    using r s1(3) w(5) s2(1,4) n(1,2) s3(1,2) by simp
qed

subsection \<open>Timing comparisons and the wrap-around of the counter\<close>

lemma servo_por_diferencia:
  "servoAnguloActual (actualizarServo a
      (s\<lparr>reloj := reloj s + k, ultimoCambioServo := ultimoCambioServo s + k\<rparr>)) =
   servoAnguloActual (actualizarServo a s)"
  by (simp add: actualizarServo_def Let_def millis_def)

lemma bloqueo_por_diferencia:
  "sistemaBloqueado (verificarDesbloqueo
      (s\<lparr>reloj := reloj s + k, tiempoBloqueo := tiempoBloqueo s + k\<rparr>)) =
   sistemaBloqueado (verificarDesbloqueo s)"
  by (simp add: verificarDesbloqueo_def Let_def millis_def beep_reloj setColor_def delay_def)

lemma alarma_por_diferencia:
  "alarmToggleState (alarmHandler
      (s\<lparr>reloj := reloj s + k, lastAlarmToggle := lastAlarmToggle s + k\<rparr>)) =
   alarmToggleState (alarmHandler s)"
  by (simp add: alarmHandler_def Let_def millis_def setColor_def)

lemma pmvBajo_por_diferencia:
  "pmvBajoToggleState (pmvBajoHandler
      (s\<lparr>reloj := reloj s + k, lastPmvBajoToggle := lastPmvBajoToggle s + k\<rparr>)) =
   pmvBajoToggleState (pmvBajoHandler s)"
  by (simp add: pmvBajoHandler_def Let_def millis_def setColor_def)

subsection \<open>The servo during a session\<close>


lemma loopConfort_partes:
  "loopConfort e s = atenderConfort (fst (getKey (teclas e))) (medirConfort e s)"
  by (simp add: loopConfort_def medirConfort_def Let_def)














subsection \<open>The failure counter and the lock, iteration by iteration\<close>

lemma verificarDesbloqueo_contador:
  "intentosFallidos (verificarDesbloqueo s) = intentosFallidos s"
  "tiempoBloqueo (verificarDesbloqueo s) = tiempoBloqueo s"
  by (simp_all add: verificarDesbloqueo_def Let_def beep_reloj setColor_def delay_def)

lemma claves_excluyentes: "claveErronea e s \<Longrightarrow> \<not> claveCorrecta e s"
  by (auto simp add: claveErronea_def claveCorrecta_def split: prod.splits option.splits)

lemma loopLogin_contador:
  assumes "loopLogin e s = Some s'"
  shows "intentosFallidos s' =
      (if claveErronea e s then (if 3 \<le> intentosFallidos s + 1 then 0 else intentosFallidos s + 1)
       else if claveCorrecta e s then 0 else intentosFallidos s) \<and>
     sistemaBloqueado s' = (sistemaBloqueado s \<or> claveErronea e s \<and> 3 \<le> intentosFallidos s + 1) \<and>
     (if claveErronea e s \<and> 3 \<le> intentosFallidos s + 1
      then tiempoBloqueo s' + 2500 = reloj s'
      else tiempoBloqueo s' = tiempoBloqueo s)"
proof (cases "claveErronea e s")
  case True
  from loopLogin_fallo [OF True] assms show ?thesis
    using True by (auto split: if_splits)
next
  case False
  show ?thesis
  proof (cases "claveCorrecta e s")
    case True
    from claveCorrecta_datos [OF True] obtain tagL ts i claveL ks where
      d: "leerTag (tarjetas e) = (tagL, ts)" "tagL \<noteq> []"
         "find (\<lambda>i. tag (usuarios s ! i) = tagL) [0..<totalUsuarios s] = Some i"
         "leerClave [] (teclas e) = Some (claveL, ks)" "claveL = clave (usuarios s ! i)"
      by blast
    have u: "usuarios (delay 1000 (beep 2 (s\<lparr>usuarioActivo := Some i\<rparr>))) = usuarios s"
      by (simp add: beep_reloj delay_def)
    from assms show ?thesis
      unfolding loopLogin_def Let_def using d u True False
      by (auto simp add: beep_reloj delay_def setColor_def millis_def)
  next
    case c: False
    from assms False c show ?thesis
      by (auto simp add: loopLogin_def Let_def claveErronea_def claveCorrecta_def beep_reloj
          delay_def setColor_def split: prod.splits option.splits if_splits)
  qed
qed

lemma medirConfort_contador:
  "intentosFallidos (medirConfort e s) = intentosFallidos s"
  "tiempoBloqueo (medirConfort e s) = tiempoBloqueo s"
  "sistemaBloqueado (medirConfort e s) = sistemaBloqueado s"
proof -
  have a: "intentosFallidos (actualizarServo a u) = intentosFallidos u"
    "tiempoBloqueo (actualizarServo a u) = tiempoBloqueo u" for a u
    by (simp_all add: actualizarServo_def Let_def)
  have b: "intentosFallidos (setActuador p u) = intentosFallidos u"
    "tiempoBloqueo (setActuador p u) = tiempoBloqueo u" for p u
    by (cases "nuevoEstado p (estadoPMVActual u)";
        simp add: setActuador_def Let_def a setColor_def)+
  have c: "intentosFallidos (checkAlarm p u) = intentosFallidos u"
    "tiempoBloqueo (checkAlarm p u) = tiempoBloqueo u"
    "intentosFallidos (checkPmvBajo p u) = intentosFallidos u"
    "tiempoBloqueo (checkPmvBajo p u) = tiempoBloqueo u" for p u
    by (simp_all add: checkAlarm_def checkPmvBajo_def Let_def triggerAlarm_def stopAlarm_def
        triggerPmvBajo_def stopPmvBajo_def setColor_def delay_def)
  show "intentosFallidos (medirConfort e s) = intentosFallidos s"
    "tiempoBloqueo (medirConfort e s) = tiempoBloqueo s"
    "sistemaBloqueado (medirConfort e s) = sistemaBloqueado s"
    by (simp_all add: medirConfort_def Let_def b c alarma_conserva pmvBajo_conserva
        setActuador_conserva)
qed

lemma atenderConfort_contador:
  "intentosFallidos (atenderConfort k s) =
     (if alarmActive s \<and> k = CHR ''#'' then 0 else intentosFallidos s)"
  "tiempoBloqueo (atenderConfort k s) = tiempoBloqueo s"
  by (simp_all add: atenderConfort_def Let_def alarmHandler_def pmvBajoHandler_def
      stopAlarm_def stopPmvBajo_def setColor_def delay_def)

lemma paso_contador:
  assumes "loop e s = Some s'"
  shows "intentosFallidos s' =
      (if fallo e s then (if 3 \<le> intentosFallidos s + 1 then 0 else intentosFallidos s + 1)
       else if acceso e s \<or> salidaAlarma e s then 0 else intentosFallidos s)"
proof (cases "estado (verificarDesbloqueo s)")
  case MENU
  with assms have "loopMenu e (verificarDesbloqueo s) = Some s'" by (simp add: loop_def)
  from loopMenu_conserva [OF this] MENU show ?thesis
    by (simp add: fallo_def acceso_def salidaAlarma_def verificarDesbloqueo_contador)
next
  case LOGIN
  with assms have "loopLogin e (verificarDesbloqueo s) = Some s'" by (simp add: loop_def)
  from loopLogin_contador [OF this] LOGIN show ?thesis
    by (simp add: fallo_def acceso_def salidaAlarma_def verificarDesbloqueo_contador)
next
  case CONFORT
  with assms have "s' = loopConfort e (verificarDesbloqueo s)" by (simp add: loop_def)
  with CONFORT show ?thesis
    by (simp add: fallo_def acceso_def salidaAlarma_def loopConfort_partes
        atenderConfort_contador medirConfort_contador verificarDesbloqueo_contador)
qed

lemma paso_libre:
  assumes "loop e s = Some s'" and "\<not> sistemaBloqueado s"
  shows "sistemaBloqueado s' = bloquea e s \<and> (bloquea e s \<longrightarrow> tiempoBloqueo s' + 2500 = reloj s')"
proof -
  have v: "verificarDesbloqueo s = s" using assms(2) by (rule verificarDesbloqueo_libre)
  show ?thesis
  proof (cases "estado s")
    case MENU
    with assms(1) have "loopMenu e s = Some s'" by (simp add: loop_def v)
    from loopMenu_conserva [OF this] MENU assms(2) show ?thesis
      by (simp add: bloquea_def fallo_def v)
  next
    case LOGIN
    with assms(1) have "loopLogin e s = Some s'" by (simp add: loop_def v)
    from loopLogin_contador [OF this] LOGIN assms(2) show ?thesis
      by (auto simp add: bloquea_def fallo_def v split: if_splits)
  next
    case CONFORT
    with assms(1) have "s' = loopConfort e s" by (simp add: loop_def v)
    with CONFORT assms(2) show ?thesis
      by (simp add: bloquea_def fallo_def v loopConfort_bloqueo)
  qed
qed

lemma paso_bloqueado:
  assumes "loop e s = Some s'" and "sistemaBloqueado s" and "\<not> bloquea e s"
  shows "sistemaBloqueado s' = (reloj s - tiempoBloqueo s < DURACION_BLOQUEO) \<and>
     (sistemaBloqueado s' \<longrightarrow> tiempoBloqueo s' = tiempoBloqueo s)"
proof -
  have a: "sistemaBloqueado s' = (reloj s - tiempoBloqueo s < DURACION_BLOQUEO)"
    using assms(2,1) by (rule desbloqueo_exacto(3))
  have "tiempoBloqueo s' = tiempoBloqueo s"
  proof (cases "estado (verificarDesbloqueo s)")
    case MENU
    with assms(1) have "loopMenu e (verificarDesbloqueo s) = Some s'" by (simp add: loop_def)
    from loopMenu_conserva [OF this] show ?thesis by (simp add: verificarDesbloqueo_contador)
  next
    case LOGIN
    with assms(1) have "loopLogin e (verificarDesbloqueo s) = Some s'" by (simp add: loop_def)
    from loopLogin_contador [OF this] LOGIN assms(3) show ?thesis
      by (auto simp add: bloquea_def fallo_def verificarDesbloqueo_contador split: if_splits)
  next
    case CONFORT
    with assms(1) have "s' = loopConfort e (verificarDesbloqueo s)" by (simp add: loop_def)
    then show ?thesis
      by (simp add: loopConfort_partes atenderConfort_contador medirConfort_contador
          verificarDesbloqueo_contador)
  qed
  with a show ?thesis by simp
qed

lemma carrera_libre:
  "\<not> sistemaBloqueado s \<Longrightarrow> todos noBloquea ps s \<Longrightarrow> correr ps s = Some s' \<Longrightarrow>
     \<not> sistemaBloqueado s'"
proof (induction ps arbitrary: s)
  case Nil
  then show ?case by simp
next
  case (Cons p ps)
  obtain d e where p: "p = (d, e)" by (cases p)
  from Cons.prems(3) obtain t where
    t: "loop e (delay d s) = Some t" "correr ps t = Some s'"
    by (auto simp add: p split: option.splits)
  from Cons.prems(2) t(1) have n: "noBloquea e (delay d s)" "todos noBloquea ps t"
    by (simp_all add: p)
  have "\<not> sistemaBloqueado (delay d s)" using Cons.prems(1) by (simp add: delay_def)
  from paso_libre [OF t(1) this] n(1) have "\<not> sistemaBloqueado t"
    by (simp add: noBloquea_def)
  from Cons.IH [OF this n(2) t(2)] show ?case .
qed

lemma carrera_bloqueada:
  "sistemaBloqueado s \<Longrightarrow> todos noBloquea ps s \<Longrightarrow> correr ps s = Some s' \<Longrightarrow>
     sistemaBloqueado s' = todos (antesDelPlazo (tiempoBloqueo s)) ps s \<and>
     (sistemaBloqueado s' \<longrightarrow> tiempoBloqueo s' = tiempoBloqueo s)"
proof (induction ps arbitrary: s)
  case Nil
  then show ?case by simp
next
  case (Cons p ps)
  obtain d e where p: "p = (d, e)" by (cases p)
  from Cons.prems(3) obtain t where
    t: "loop e (delay d s) = Some t" "correr ps t = Some s'"
    by (auto simp add: p split: option.splits)
  from Cons.prems(2) t(1) have n: "noBloquea e (delay d s)" "todos noBloquea ps t"
    by (simp_all add: p)
  have w: "sistemaBloqueado (delay d s)" "tiempoBloqueo (delay d s) = tiempoBloqueo s"
    using Cons.prems(1) by (simp_all add: delay_def)
  from n(1) have "\<not> bloquea e (delay d s)" by (simp add: noBloquea_def)
  from paso_bloqueado [OF t(1) w(1) this]
  have b: "sistemaBloqueado t = antesDelPlazo (tiempoBloqueo s) e (delay d s)"
    "sistemaBloqueado t \<longrightarrow> tiempoBloqueo t = tiempoBloqueo s"
    by (simp_all add: antesDelPlazo_def w(2))
  show ?case
  proof (cases "sistemaBloqueado t")
    case True
    with b(2) have tt: "tiempoBloqueo t = tiempoBloqueo s" by simp
    from Cons.IH [OF True n(2) t(2)] True b(1) show ?thesis
      by (simp add: p t(1) tt)
  next
    case False
    from carrera_libre [OF False n(2) t(2)] False b(1) show ?thesis
      by (simp add: p)
  qed
qed

lemma fallos_contados:
  "\<not> sistemaBloqueado s \<Longrightarrow> todos sinReinicio ps s \<Longrightarrow> correr ps s = Some s' \<Longrightarrow>
   intentosFallidos s + int (cuenta fallo ps s) < 3 \<Longrightarrow>
     \<not> sistemaBloqueado s' \<and> intentosFallidos s' = intentosFallidos s + int (cuenta fallo ps s)"
proof (induction ps arbitrary: s)
  case Nil
  then show ?case by simp
next
  case (Cons p ps)
  obtain d e where p: "p = (d, e)" by (cases p)
  let ?w = "delay d s"
  from Cons.prems(3) obtain t where
    t: "loop e ?w = Some t" "correr ps t = Some s'"
    by (auto simp add: p split: option.splits)
  from Cons.prems(2) t(1) have n: "sinReinicio e ?w" "todos sinReinicio ps t"
    by (simp_all add: p)
  have c: "cuenta fallo (p # ps) s = (if fallo e ?w then 1 else 0) + cuenta fallo ps t"
    by (simp add: p t(1))
  have w: "\<not> sistemaBloqueado ?w" "intentosFallidos ?w = intentosFallidos s"
    using Cons.prems(1) by (simp_all add: delay_def)
  have i: "intentosFallidos t = intentosFallidos s + (if fallo e ?w then 1 else 0)"
    using paso_contador [OF t(1)] n(1) Cons.prems(4) c w(2)
    by (auto simp add: sinReinicio_def split: if_splits)
  have "\<not> bloquea e ?w"
    using Cons.prems(4) c w(2) by (auto simp add: bloquea_def split: if_splits)
  with paso_libre [OF t(1) w(1)] have u: "\<not> sistemaBloqueado t" by simp
  have "intentosFallidos t + int (cuenta fallo ps t) < 3"
    using Cons.prems(4) c i by (auto split: if_splits)
  from Cons.IH [OF u n(2) t(2) this] i c show ?case
    by (auto split: if_splits)
qed

lemma fallo_devuelve: "fallo e s \<Longrightarrow> \<exists>s'. loop e s = Some s'"
  using loopLogin_fallo [of e "verificarDesbloqueo s"]
  by (auto simp add: fallo_def loop_def)

lemma tercer_fallo:
  assumes "\<not> sistemaBloqueado s" and "intentosFallidos s = 0" and "todos sinReinicio ps s"
    and "cuenta fallo ps s = 2" and "correr ps s = Some t" and "fallo e (delay d t)"
  shows "\<not> sistemaBloqueado t \<and> intentosFallidos t = 2 \<and>
     (\<exists>t'. loop e (delay d t) = Some t' \<and> sistemaBloqueado t' \<and> intentosFallidos t' = 0 \<and>
        tiempoBloqueo t' + 2500 = reloj t')"
proof -
  have "intentosFallidos s + int (cuenta fallo ps s) < 3"
    using assms(2,4) by simp
  from fallos_contados [OF assms(1,3,5) this] assms(2,4)
  have a: "\<not> sistemaBloqueado t" "intentosFallidos t = 2" by simp_all
  from fallo_devuelve [OF assms(6)] obtain t' where t': "loop e (delay d t) = Some t'" ..
  have w: "\<not> sistemaBloqueado (delay d t)" "intentosFallidos (delay d t) = 2"
    using a by (simp_all add: delay_def)
  then have b: "bloquea e (delay d t)"
    using assms(6) by (simp add: bloquea_def)
  from paso_libre [OF t' w(1)] b
  have "sistemaBloqueado t'" "tiempoBloqueo t' + 2500 = reloj t'" by simp_all
  moreover from paso_contador [OF t'] assms(6) w(2) have "intentosFallidos t' = 0" by simp
  ultimately show ?thesis using a t' by blast
qed

text \<open>
  The claim as first stated fails on the code in two runs from power-on. In the first,
  two wrong PINs bring the counter to 2; a registration enters \<open>CONFORT\<close>, the alarm
  goes off and the key \<open>#\<close> leaves with the alarm active, which sets the counter to 0; the
  third wrong PIN in a row then leaves the counter at 1 and the system unlocked. In the
  second, three wrong PINs lock the system at tick 11250; three more wrong PINs, entered
  while it is locked, call \<open>bloqueoSistema\<close> again, and the check at tick 27000, 15750 ms
  after the lock began, leaves the system locked.
\<close>

theorem C2_tres_fallos_sin_bloqueo:
  "map_option intentosFallidos (ejecutar
     [entradaMenu1, entradaPinMalo, entradaMenu1, entradaPinMalo]
     (setup_ino globales)) = Some 2 \<and>
   map_option estado (ejecutar
     [entradaMenu1, entradaPinMalo, entradaMenu1, entradaPinMalo, entradaRegistro]
     (setup_ino globales)) = Some CONFORT \<and>
   map_option intentosFallidos (ejecutar
     [entradaMenu1, entradaPinMalo, entradaMenu1, entradaPinMalo, entradaRegistro,
      entradaCalor, entradaCalorTecla CHR ''#'', entradaMenu1, entradaPinMalo]
     (setup_ino globales)) = Some 1 \<and>
   map_option sistemaBloqueado (ejecutar
     [entradaMenu1, entradaPinMalo, entradaMenu1, entradaPinMalo, entradaRegistro,
      entradaCalor, entradaCalorTecla CHR ''#'', entradaMenu1, entradaPinMalo]
     (setup_ino globales)) = Some False \<and>
   map_option tiempoBloqueo (correr
     [(0, entradaMenu1), (0, entradaPinMalo), (0, entradaMenu1), (0, entradaPinMalo),
      (0, entradaMenu1), (0, entradaPinMalo)]
     (setup_ino globales)) = Some 11250 \<and>
   map_option sistemaBloqueado (correr
     [(0, entradaMenu1), (0, entradaPinMalo), (0, entradaMenu1), (0, entradaPinMalo),
      (0, entradaMenu1), (0, entradaPinMalo)]
     (setup_ino globales)) = Some True \<and>
   map_option sistemaBloqueado (correr
     [(0, entradaMenu1), (0, entradaPinMalo), (0, entradaMenu1), (0, entradaPinMalo),
      (0, entradaMenu1), (0, entradaPinMalo),
      (0, entradaMenu1), (0, entradaPinMalo), (0, entradaMenu1), (0, entradaPinMalo),
      (0, entradaMenu1), (0, entradaPinMalo), (1000, sinEntrada)]
     (setup_ino globales)) = Some True \<and>
   map_option reloj (correr
     [(0, entradaMenu1), (0, entradaPinMalo), (0, entradaMenu1), (0, entradaPinMalo),
      (0, entradaMenu1), (0, entradaPinMalo),
      (0, entradaMenu1), (0, entradaPinMalo), (0, entradaMenu1), (0, entradaPinMalo),
      (0, entradaMenu1), (0, entradaPinMalo), (1000, sinEntrada)]
     (setup_ino globales)) = Some 27000 \<and>
   DURACION_BLOQUEO \<le> (27000 :: ulong) - 11250"
  by code_simp

text \<open>
  Claim C2 (lockout lifecycle), as amended. Every iteration of \<open>loop\<close> that returns
  changes the failure counter in one of three ways only: a failed PIN verification adds 1,
  or sets it to 0 when that brings it to 3; a successful login and the key \<open>#\<close> that
  leaves \<open>CONFORT\<close> with the alarm active set it to 0; anything else leaves it alone. From
  an unlocked state an iteration ends locked exactly when it is the failed verification
  that brings the counter to 3, and \<open>tiempoBloqueo\<close> then holds the tick at which the
  lock began (\<open>bloqueoSistema\<close> returns 2500 ms later). So in any run from an unlocked
  state with the counter at 0, with no such reset, the third failed verification locks,
  whatever waits, idle polls, unknown cards or menu keys lie between the three. From a
  locked state, over any run in which no further lock is triggered, \<open>tiempoBloqueo\<close>
  stays the tick of the lock and the system is still locked after the run exactly if at
  the head of every iteration fewer than 15000 ms (as a wrapping difference of ticks) had
  passed since that tick; the check that finds 15000 ms or more clears the lock, sets
  the mode to \<open>MENU\<close> and clears the active user.
\<close>

theorem C2_bloqueo_por_contador:
  "(loop e s = Some s' \<longrightarrow>
      intentosFallidos s' =
        (if fallo e s then (if 3 \<le> intentosFallidos s + 1 then 0 else intentosFallidos s + 1)
         else if acceso e s \<or> salidaAlarma e s then 0 else intentosFallidos s)) \<and>
   (loop e s = Some s' \<and> \<not> sistemaBloqueado s \<longrightarrow>
      sistemaBloqueado s' = bloquea e s \<and>
      (bloquea e s \<longrightarrow> tiempoBloqueo s' + 2500 = reloj s')) \<and>
   (\<not> sistemaBloqueado r \<and> intentosFallidos r = 0 \<and> todos sinReinicio ps r \<and>
    cuenta fallo ps r = 2 \<and> correr ps r = Some t \<and> fallo e3 (delay d3 t) \<longrightarrow>
      \<not> sistemaBloqueado t \<and> intentosFallidos t = 2 \<and>
      (\<exists>t'. loop e3 (delay d3 t) = Some t' \<and> sistemaBloqueado t' \<and> intentosFallidos t' = 0 \<and>
         tiempoBloqueo t' + 2500 = reloj t')) \<and>
   (sistemaBloqueado u \<and> todos noBloquea qs u \<and> correr qs u = Some u' \<longrightarrow>
      sistemaBloqueado u' = todos (antesDelPlazo (tiempoBloqueo u)) qs u \<and>
      (sistemaBloqueado u' \<longrightarrow> tiempoBloqueo u' = tiempoBloqueo u)) \<and>
   (sistemaBloqueado u \<longrightarrow>
      sistemaBloqueado (verificarDesbloqueo u) = (reloj u - tiempoBloqueo u < DURACION_BLOQUEO) \<and>
      (DURACION_BLOQUEO \<le> reloj u - tiempoBloqueo u \<longrightarrow>
         estado (verificarDesbloqueo u) = MENU \<and> usuarioActivo (verificarDesbloqueo u) = None))"
  using paso_contador [of e s s'] paso_libre [of e s s'] tercer_fallo [of r ps t e3 d3]
    carrera_bloqueada [of u qs u'] desbloqueo_exacto(1) [of u] desbloqueo_exacto(2) [of u]
  by (intro conjI impI; (elim conjE)?; blast)

theorem C2_bloqueo_por_contador_witness:
  "intentosFallidos (the (correr
     [(0, entradaMenu1), (0, entradaPinMalo), (500, sinEntrada), (0, entradaMenu1),
      (0, entradaPinMalo), (0, entradaMenu1)] (setup_ino globales))) = 2 \<and>
   \<not> sistemaBloqueado (the (correr
     [(0, entradaMenu1), (0, entradaPinMalo), (500, sinEntrada), (0, entradaMenu1),
      (0, entradaPinMalo), (0, entradaMenu1)] (setup_ino globales))) \<and>
   sistemaBloqueado (the (correr
     [(0, entradaMenu1), (0, entradaPinMalo), (500, sinEntrada), (0, entradaMenu1),
      (0, entradaPinMalo), (0, entradaMenu1), (0, entradaPinMalo)] (setup_ino globales))) \<and>
   intentosFallidos (the (correr
     [(0, entradaMenu1), (0, entradaPinMalo), (500, sinEntrada), (0, entradaMenu1),
      (0, entradaPinMalo), (0, entradaMenu1), (0, entradaPinMalo)] (setup_ino globales))) = 0 \<and>
   sistemaBloqueado (the (correr [(1000, sinEntrada), (11499, sinEntrada)]
     (the (correr
       [(0, entradaMenu1), (0, entradaPinMalo), (500, sinEntrada), (0, entradaMenu1),
        (0, entradaPinMalo), (0, entradaMenu1), (0, entradaPinMalo)] (setup_ino globales))))) \<and>
   \<not> sistemaBloqueado (the (correr [(1000, sinEntrada), (11499, sinEntrada), (1, sinEntrada)]
     (the (correr
       [(0, entradaMenu1), (0, entradaPinMalo), (500, sinEntrada), (0, entradaMenu1),
        (0, entradaPinMalo), (0, entradaMenu1), (0, entradaPinMalo)] (setup_ino globales)))))"
proof -
  define ps where "ps = [(0 :: ulong, entradaMenu1), (0, entradaPinMalo), (500, sinEntrada),
      (0, entradaMenu1), (0, entradaPinMalo), (0, entradaMenu1)]"
  define t where "t = the (correr ps (setup_ino globales))"
  define l where "l = the (correr
       [(0, entradaMenu1), (0, entradaPinMalo), (500, sinEntrada), (0, entradaMenu1),
        (0, entradaPinMalo), (0, entradaMenu1), (0, entradaPinMalo)] (setup_ino globales))"
  define q2 where "q2 = [(1000 :: ulong, sinEntrada), (11499, sinEntrada)]"
  define q3 where "q3 = [(1000 :: ulong, sinEntrada), (11499, sinEntrada), (1, sinEntrada)]"
  have a: "\<not> sistemaBloqueado (setup_ino globales)" "intentosFallidos (setup_ino globales) = 0"
    "todos sinReinicio ps (setup_ino globales)" "cuenta fallo ps (setup_ino globales) = 2"
    "correr ps (setup_ino globales) = Some t" "fallo entradaPinMalo (delay 0 t)"
    "loop entradaPinMalo (delay 0 t) = Some l"
    unfolding t_def l_def ps_def by code_simp+
  have b: "sistemaBloqueado l" "todos noBloquea q2 l" "correr q2 l = Some (the (correr q2 l))"
    "todos (antesDelPlazo (tiempoBloqueo l)) q2 l"
    "todos noBloquea q3 l" "correr q3 l = Some (the (correr q3 l))"
    "\<not> todos (antesDelPlazo (tiempoBloqueo l)) q3 l"
    unfolding l_def q2_def q3_def by code_simp+
  note x = C2_bloqueo_por_contador
    [of entradaPinMalo "delay 0 t" l "setup_ino globales" ps t entradaPinMalo 0 l q2
      "the (correr q2 l)"]
  note y = C2_bloqueo_por_contador
    [of entradaPinMalo "delay 0 t" l "setup_ino globales" ps t entradaPinMalo 0 l q3
      "the (correr q3 l)"]
  from x a have c: "\<not> sistemaBloqueado t" "intentosFallidos t = 2"
    "intentosFallidos l = 0"
    by auto
  from x a b have d: "sistemaBloqueado (the (correr q2 l))" by blast
  from y a b have e: "\<not> sistemaBloqueado (the (correr q3 l))" by blast
  from b(1) c d e show ?thesis
    unfolding t_def l_def ps_def q2_def q3_def by blast
qed

text \<open>
  Claim C9 (wraparound-safe timing) holds for four of the five timers and fails for the
  fifth. The servo cooldown, the lockout duration and the two blink intervals are tested
  on the difference between \<open>millis()\<close> and a recorded tick, so moving both by the same
  number of ticks, across the wrap or not, changes no decision. The silence window is
  tested as \<open>millis() < alarmSilenceUntil\<close> in \<open>checkAlarm\<close>, with
  \<open>alarmSilenceUntil = millis() + 60000\<close>. In the run below, from power-on, the alarm is
  silenced at tick 4294868096, 99200 ms before the counter wraps, so the deadline is
  4294928096; the user leaves \<open>CONFORT\<close> with \<open>#\<close>, and logs in again after the wrap.
  The tick that follows begins at tick 62750, 161950 ms after the alarm was silenced, with
  the index at 1.5: \<open>checkAlarm\<close> finds 62750 below the deadline and returns, and the
  alarm stays off and silenced.
\<close>

theorem C9_silencio_por_comparacion_directa:
  "servoAnguloActual (actualizarServo a
      (s\<lparr>reloj := reloj s + k, ultimoCambioServo := ultimoCambioServo s + k\<rparr>)) =
     servoAnguloActual (actualizarServo a s) \<and>
   sistemaBloqueado (verificarDesbloqueo
      (s\<lparr>reloj := reloj s + k, tiempoBloqueo := tiempoBloqueo s + k\<rparr>)) =
     sistemaBloqueado (verificarDesbloqueo s) \<and>
   alarmToggleState (alarmHandler
      (s\<lparr>reloj := reloj s + k, lastAlarmToggle := lastAlarmToggle s + k\<rparr>)) =
     alarmToggleState (alarmHandler s) \<and>
   pmvBajoToggleState (pmvBajoHandler
      (s\<lparr>reloj := reloj s + k, lastPmvBajoToggle := lastPmvBajoToggle s + k\<rparr>)) =
     pmvBajoToggleState (pmvBajoHandler s) \<and>
   map_option alarmSilenced (correr
     [(0, entradaMenu1), (0, entradaPinBueno), (0, entradaCalor),
      (4294861846, entradaCalorTecla CHR ''*'')]
     (setup_ino globales)) = Some True \<and>
   map_option alarmSilenceUntil (correr
     [(0, entradaMenu1), (0, entradaPinBueno), (0, entradaCalor),
      (4294861846, entradaCalorTecla CHR ''*'')]
     (setup_ino globales)) = Some (4294868096 + 60000) \<and>
   map_option reloj (correr
     [(0, entradaMenu1), (0, entradaPinBueno), (0, entradaCalor),
      (4294861846, entradaCalorTecla CHR ''*''), (0, entradaCalorTecla CHR ''#''),
      (158000, entradaMenu1), (0, entradaPinBueno)]
     (setup_ino globales)) = Some 62750 \<and>
   (62750 :: ulong) - 4294868096 = 161950 \<and>
   map_option pmv (correr
     [(0, entradaMenu1), (0, entradaPinBueno), (0, entradaCalor),
      (4294861846, entradaCalorTecla CHR ''*''), (0, entradaCalorTecla CHR ''#''),
      (158000, entradaMenu1), (0, entradaPinBueno), (0, entradaCalor)]
     (setup_ino globales)) = Some (calcularPMV 30 (leerTempAnalogica 573) 50 300) \<and>
   PMV_ALARM_THRESHOLD < calcularPMV 30 (leerTempAnalogica 573) 50 300 \<and>
   map_option alarmActive (correr
     [(0, entradaMenu1), (0, entradaPinBueno), (0, entradaCalor),
      (4294861846, entradaCalorTecla CHR ''*''), (0, entradaCalorTecla CHR ''#''),
      (158000, entradaMenu1), (0, entradaPinBueno), (0, entradaCalor)]
     (setup_ino globales)) = Some False \<and>
   map_option alarmSilenced (correr
     [(0, entradaMenu1), (0, entradaPinBueno), (0, entradaCalor),
      (4294861846, entradaCalorTecla CHR ''*''), (0, entradaCalorTecla CHR ''#''),
      (158000, entradaMenu1), (0, entradaPinBueno), (0, entradaCalor)]
     (setup_ino globales)) = Some True"
proof -
  have r: "map_option alarmSilenced (correr
     [(0, entradaMenu1), (0, entradaPinBueno), (0, entradaCalor),
      (4294861846, entradaCalorTecla CHR ''*'')]
     (setup_ino globales)) = Some True"
   "map_option alarmSilenceUntil (correr
     [(0, entradaMenu1), (0, entradaPinBueno), (0, entradaCalor),
      (4294861846, entradaCalorTecla CHR ''*'')]
     (setup_ino globales)) = Some (4294868096 + 60000)"
   "map_option reloj (correr
     [(0, entradaMenu1), (0, entradaPinBueno), (0, entradaCalor),
      (4294861846, entradaCalorTecla CHR ''*''), (0, entradaCalorTecla CHR ''#''),
      (158000, entradaMenu1), (0, entradaPinBueno)]
     (setup_ino globales)) = Some 62750"
   "(62750 :: ulong) - 4294868096 = 161950"
   "map_option pmv (correr
     [(0, entradaMenu1), (0, entradaPinBueno), (0, entradaCalor),
      (4294861846, entradaCalorTecla CHR ''*''), (0, entradaCalorTecla CHR ''#''),
      (158000, entradaMenu1), (0, entradaPinBueno), (0, entradaCalor)]
     (setup_ino globales)) = Some (calcularPMV 30 (leerTempAnalogica 573) 50 300)"
   "PMV_ALARM_THRESHOLD < calcularPMV 30 (leerTempAnalogica 573) 50 300"
   "map_option alarmActive (correr
     [(0, entradaMenu1), (0, entradaPinBueno), (0, entradaCalor),
      (4294861846, entradaCalorTecla CHR ''*''), (0, entradaCalorTecla CHR ''#''),
      (158000, entradaMenu1), (0, entradaPinBueno), (0, entradaCalor)]
     (setup_ino globales)) = Some False"
   "map_option alarmSilenced (correr
     [(0, entradaMenu1), (0, entradaPinBueno), (0, entradaCalor),
      (4294861846, entradaCalorTecla CHR ''*''), (0, entradaCalorTecla CHR ''#''),
      (158000, entradaMenu1), (0, entradaPinBueno), (0, entradaCalor)]
     (setup_ino globales)) = Some True"
    by code_simp+
  show ?thesis
    by (intro conjI servo_por_diferencia bloqueo_por_diferencia alarma_por_diferencia
        pmvBajo_por_diferencia r)
qed

lemma correr_alcanzable:
  "alcanzable s \<Longrightarrow> correr ps s = Some s' \<Longrightarrow> alcanzable s'"
proof (induction ps arbitrary: s)
  case Nil
  then show ?case by simp
next
  case (Cons p ps)
  obtain d e where p: "p = (d, e)" by (cases p)
  from Cons.prems(2) obtain t where
    t: "loop e (delay d s) = Some t" "correr ps t = Some s'"
    by (auto simp add: p split: option.splits)
  from Cons.prems(1) have "alcanzable (delay d s)" by (rule alcanzable.espera)
  then have "alcanzable t" using t(1) by (rule alcanzable.iteracion)
  then show ?case using t(2) by (rule Cons.IH)
qed

end
